theory Spec2Isabelle
  imports Complex_Main "HOL-Library.Sublist" "HOL-Library.Multiset"
    "HOL-Library.List_Lexorder" "HOL-Library.Char_ord"
begin

section \<open>Data model of the gameplay simulation\<close>

text \<open>
  The C++ sources keep every simulated entity as a \<^verbatim>\<open>Mob*\<close> inside the vector
  \<^verbatim>\<open>mobs.all\<close>. Here a mob is a record, the vector is a list, and a pointer to a mob
  is its index in that list (removal from the vector only happens in the sweep at the end of
  the tick, so an index names the same mob during the whole tick). C++ \<^verbatim>\<open>float\<close>
  values are idealised as real numbers; no statement below depends on rounding.
\<close>

type_synonym point = "real \<times> real"

datatype inactive_logic_flag = INACTIVE_LOGIC_FLAG_TICKS | INACTIVE_LOGIC_FLAG_INTERACTIONS

datatype mob_flag = MOB_FLAG_INTANGIBLE | MOB_FLAG_UNPUSHABLE

datatype mob_category_id =
  MOB_CATEGORY_PIKMIN | MOB_CATEGORY_LEADERS | MOB_CATEGORY_SCALES | MOB_CATEGORY_OTHER nat

datatype hitbox_type = HITBOX_TYPE_NORMAL | HITBOX_TYPE_ATTACK | HITBOX_TYPE_DISABLED

datatype mob_ev =
  MOB_EV_TOUCHED_OBJECT | MOB_EV_TOUCHED_OPPONENT
  | MOB_EV_OBJECT_IN_REACH | MOB_EV_OPPONENT_IN_REACH
  | MOB_EV_NEAR_CARRIABLE_OBJECT | MOB_EV_NEAR_TOOL | MOB_EV_NEAR_GROUP_TASK
  | MOB_EV_TOUCHED_ACTIVE_LEADER
  | MOB_EV_HITBOX_TOUCH_A_N | MOB_EV_HITBOX_TOUCH_N_A | MOB_EV_HITBOX_TOUCH_N_N
  | MOB_EV_HITBOX_TOUCH_EAT | MOB_EV_TOUCHED_HAZARD

text \<open>\<^verbatim>\<open>has_flag(bitmask, flag)\<close>: a bitmask is the set of its flags.\<close>

definition has_flag :: "'a set \<Rightarrow> 'a \<Rightarrow> bool" where
  "has_flag fl f = (f \<in> fl)"

text \<open>Modelled from the spec: \<^verbatim>\<open>MobType::Reach\<close> is declared outside the given
  sources. A reach is a detection region given by an angle span and a distance; it is only
  ever handed to \<^verbatim>\<open>is_mob_in_reach\<close>.\<close>

record reach =
  reach_angle :: real
  reach_radius :: real

text \<open>A \<^verbatim>\<open>Hitbox\<close>, with its fields prefixed by \<open>h_\<close>; a hazard is named by a
  number.\<close>

record hitbox =
  h_type :: hitbox_type
  h_pos :: point
  h_radius :: real
  h_z :: real
  h_height :: real
  h_hazards :: "nat list"
  h_body_part_idx :: nat

text \<open>What an event is run with: the other mob; a \<^verbatim>\<open>HitboxInteraction\<close> (other
  mob, own hitbox, other hitbox); the other mob and its hitbox, for the eat event; a hazard
  and a \<^verbatim>\<open>HitboxInteraction\<close>, for the hazard event.\<close>

datatype event_info =
  Info_mob nat
  | Info_hitbox_interaction nat hitbox hitbox
  | Info_eat nat hitbox
  | Info_hazard nat nat hitbox hitbox

text \<open>A status effect on a mob, as far as it is asked whether its type disables
  attacks.\<close>

record status =
  disables_attack :: bool

record mob_type =
  category :: mob_category_id
  pushable :: bool
  pushes :: bool
  pushes_softly :: bool
  pushes_with_hitboxes :: bool
  inactive_logic :: "inactive_logic_flag set"
  reaches :: "reach list"

text \<open>A \<^verbatim>\<open>MobState\<close>: its id and the event types it has a handler for. Two states of
  one mob type are the same object exactly when they are the same value here.\<close>

record mob_state =
  state_id :: nat
  state_events :: "mob_ev list"

text \<open>A \<^verbatim>\<open>MobEvent*\<close>: the event object of a given state for a given event type.\<close>

type_synonym mob_event = "nat \<times> mob_ev"

record carry_info_t =
  is_moving :: bool
  is_full :: bool

text \<open>The dynamic class of a mob, as far as \<^verbatim>\<open>typeid\<close> is asked about it: a tool
  carries who reserved it, a group task whether \<^verbatim>\<open>get_free_spot()\<close> finds a spot.\<close>

datatype mob_kind = Kind_Tool "nat option" | Kind_GroupTask bool | Kind_Other

record mob =
  mob_id :: nat
  type :: mob_type
  kind :: mob_kind
  pos :: point
  z :: real
  height :: real
  radius :: real
  angle :: real
  angle_cos :: real
  angle_sin :: real
  rectangular_dim :: point
  flags :: "mob_flag set"
  time_alive :: real
  is_active :: bool
  to_delete :: bool
  is_stored_inside_mob :: bool
  interaction_span :: real
  physical_span :: real
  health :: real
  near_reach :: "nat option"
  has_invisibility_status :: bool
  carry_info :: "carry_info_t option"
  standing_on_mob :: "nat option"
  push_amount :: real
  push_angle :: real
  cur_state :: mob_state
  sprite :: "hitbox list option"
  parent :: "nat option"
  holder_m :: "nat option"
  holder_hitbox_idx :: nat
  statuses :: "status list"
  chomping_mobs :: "nat list"
  chomp_max :: nat
  chomp_body_parts :: "nat list"

text \<open>A \<^verbatim>\<open>PendingIntermobEvent\<close>: distance, event to run (nullable), other mob.\<close>

record pending_intermob_event =
  pe_d :: real
  pe_event_ptr :: "mob_event option"
  pe_mob_ptr :: nat

text \<open>The part of the gameplay state the modelled functions touch. \<open>run_log\<close> and
  \<open>tick_log\<close> are ghost fields: the first records every event the interaction resolver
  runs (event, acting mob, other mob), the second every mob that
  \<^verbatim>\<open>do_gameplay_logic\<close> ticks.\<close>

record world =
  mobs_all :: "mob list"
  cur_leader_ptr :: "nat option"
  area_active_cells :: "bool list list"
  run_log :: "(mob_event \<times> nat \<times> nat) list"
  tick_log :: "nat list"

text \<open>Everything the modelled functions call or read that the given sources only declare:
  geometry helpers, methods of \<^verbatim>\<open>Mob\<close> and \<^verbatim>\<open>Hitbox\<close>, the script runtime
  behind \<^verbatim>\<open>MobEvent::run\<close> and \<^verbatim>\<open>Mob::tick\<close>, and named constants.
  \<open>std_sort\<close> is \<^verbatim>\<open>std::sort\<close> with the comparator "smaller key first" (it is
  not stable, so only "a sorted permutation" is known of it), and \<open>set_order\<close> is the order
  in which an \<^verbatim>\<open>unordered_set\<close> holding the given elements is iterated.\<close>

record env =
  dist :: "point \<Rightarrow> point \<Rightarrow> real"
  get_angle :: "point \<Rightarrow> point \<Rightarrow> real"
  get_angle_smallest_dif :: "real \<Rightarrow> real \<Rightarrow> real"
  get_distance_between :: "mob \<Rightarrow> mob \<Rightarrow> real \<Rightarrow> real"
  rectangles_intersect ::
    "point \<Rightarrow> point \<Rightarrow> real \<Rightarrow> point \<Rightarrow> point \<Rightarrow> real \<Rightarrow> bool \<times> real \<times> real"
  circle_intersects_rectangle ::
    "point \<Rightarrow> real \<Rightarrow> point \<Rightarrow> point \<Rightarrow> real \<Rightarrow> bool \<times> real \<times> real"
  is_mob_in_reach :: "reach \<Rightarrow> real \<Rightarrow> real \<Rightarrow> bool"
  task_range :: "mob \<Rightarrow> real"
  can_hunt :: "mob \<Rightarrow> mob \<Rightarrow> bool"
  can_hurt :: "mob \<Rightarrow> mob \<Rightarrow> bool"
  is_resistant_to_hazards :: "mob \<Rightarrow> nat list \<Rightarrow> bool"
  get_cur_pos :: "hitbox \<Rightarrow> point \<Rightarrow> real \<Rightarrow> real \<Rightarrow> point"
  run :: "mob_event \<Rightarrow> nat \<Rightarrow> event_info \<Rightarrow> world \<Rightarrow> world"
  tick :: "nat \<Rightarrow> world \<Rightarrow> world"
  std_sort ::
    "(pending_intermob_event \<Rightarrow> real) \<Rightarrow> pending_intermob_event list \<Rightarrow>
     pending_intermob_event list"
  set_order :: "nat list \<Rightarrow> nat list"
  top_left_corner :: point
  AREA_CELL_SIZE :: real
  delta_t :: real
  TAU :: real
  PUSH_SOFTLY_AMOUNT :: real
  PUSH_THROTTLE_TIMEOUT :: real
  PUSH_THROTTLE_FACTOR :: real
  idle_bump_range :: real
  PIKMIN_STATE_IDLING :: nat
  PIKMIN_STATE_IDLING_H :: nat
  LEADER_STATE_ACTIVE :: nat

text \<open>Modelled from the spec: \<^verbatim>\<open>MobFsm::get_event\<close> is not in the given sources. A
  state maps event types to action lists and an empty list is no handler, so the lookup
  yields the current state's event object when the state has a handler, else null.\<close>

definition get_event :: "mob \<Rightarrow> mob_ev \<Rightarrow> mob_event option" where
  "get_event m_ptr t =
     (if t \<in> set (state_events (cur_state m_ptr))
      then Some (state_id (cur_state m_ptr), t) else None)"

text \<open>\<^verbatim>\<open>ev->run(m_ptr, ...)\<close>: the script runtime does its work, and the call is
  recorded.\<close>

definition run_with ::
  "env \<Rightarrow> mob_event \<Rightarrow> nat \<Rightarrow> nat \<Rightarrow> event_info \<Rightarrow> world \<Rightarrow> world" where
  "run_with e ev m m2 info w =
     (run e ev m info w)\<lparr>run_log := run_log w @ [(ev, m, m2)], tick_log := tick_log w\<rparr>"

text \<open>\<^verbatim>\<open>ev->run(m_ptr, (void*) m2_ptr)\<close>.\<close>

definition run_event :: "env \<Rightarrow> mob_event \<Rightarrow> nat \<Rightarrow> nat \<Rightarrow> world \<Rightarrow> world" where
  "run_event e ev m m2 w = run_with e ev m m2 (Info_mob m2) w"

text \<open>\<^verbatim>\<open>m_ptr->tick(delta_t)\<close>; the events a tick runs on its own are not part
  of the interaction resolver and are not recorded.\<close>

definition tick_mob :: "env \<Rightarrow> nat \<Rightarrow> world \<Rightarrow> world" where
  "tick_mob e m w = (tick e m w)\<lparr>run_log := run_log w, tick_log := tick_log w @ [m]\<rparr>"


section \<open>process_mob_touches: pushing\<close>

definition both_idle_pikmin :: "env \<Rightarrow> mob \<Rightarrow> mob \<Rightarrow> bool" where
  "both_idle_pikmin e m_ptr m2_ptr \<longleftrightarrow>
     category (type m_ptr) = MOB_CATEGORY_PIKMIN \<and>
     category (type m2_ptr) = MOB_CATEGORY_PIKMIN \<and>
     (state_id (cur_state m_ptr) = PIKMIN_STATE_IDLING e \<or>
      state_id (cur_state m_ptr) = PIKMIN_STATE_IDLING_H e) \<and>
     (state_id (cur_state m2_ptr) = PIKMIN_STATE_IDLING e \<or>
      state_id (cur_state m2_ptr) = PIKMIN_STATE_IDLING_H e)"

definition ok_to_push :: "mob \<Rightarrow> mob \<Rightarrow> nat \<Rightarrow> bool" where
  "ok_to_push m_ptr m2_ptr m2 =
     (if has_flag (flags m_ptr) MOB_FLAG_INTANGIBLE \<or>
         has_flag (flags m2_ptr) MOB_FLAG_INTANGIBLE then False
      else if \<not> pushable (type m_ptr) then False
      else if has_flag (flags m_ptr) MOB_FLAG_UNPUSHABLE then False
      else if standing_on_mob m_ptr = Some m2 then False
      else True)"

definition carried_and_moving :: "mob \<Rightarrow> bool" where
  "carried_and_moving m_ptr =
     (case carry_info m_ptr of None \<Rightarrow> False | Some ci \<Rightarrow> is_moving ci)"

text \<open>The condition of the \<^verbatim>\<open>if\<close> that guards the whole push computation.\<close>

definition push_applies :: "env \<Rightarrow> mob \<Rightarrow> mob \<Rightarrow> nat \<Rightarrow> nat \<Rightarrow> bool" where
  "push_applies e m_ptr m2_ptr m m2 \<longleftrightarrow>
     ok_to_push m_ptr m2_ptr m2 \<and>
     (pushes (type m2_ptr) \<or> both_idle_pikmin e m_ptr m2_ptr) \<and>
     ((z m2_ptr < z m_ptr + height m_ptr \<and> z m2_ptr + height m2_ptr > z m_ptr) \<or>
      height m_ptr = 0 \<or> height m2_ptr = 0) \<and>
     \<not> (carried_and_moving m_ptr \<and> carried_and_moving m2_ptr \<and> m < m2)"

text \<open>The loop over the pusher's hitboxes; the accumulator is
  \<open>(push_amount, push_angle)\<close>.\<close>

fun push_with_hitboxes ::
  "env \<Rightarrow> mob \<Rightarrow> mob \<Rightarrow> hitbox list \<Rightarrow> real \<times> real \<Rightarrow> real \<times> real" where
  "push_with_hitboxes e m_ptr m2_ptr [] acc = acc"
| "push_with_hitboxes e m_ptr m2_ptr (h # hs) (p_amount, p_angle) =
     (if h_type h = HITBOX_TYPE_DISABLED
      then push_with_hitboxes e m_ptr m2_ptr hs (p_amount, p_angle)
      else
        let hpos =
              (fst (pos m2_ptr) +
                 (fst (h_pos h) * angle_cos m2_ptr - snd (h_pos h) * angle_sin m2_ptr),
               snd (pos m2_ptr) +
                 (fst (h_pos h) * angle_sin m2_ptr + snd (h_pos h) * angle_cos m2_ptr));
            hd = dist e (pos m_ptr) hpos
        in
          if hd < radius m_ptr + h_radius h then
            (let p = \<bar>hd - radius m_ptr - h_radius h\<bar> in
               if p_amount = 0 \<or> p > p_amount
               then push_with_hitboxes e m_ptr m2_ptr hs (p, get_angle e hpos (pos m_ptr))
               else push_with_hitboxes e m_ptr m2_ptr hs (p_amount, p_angle))
          else push_with_hitboxes e m_ptr m2_ptr hs (p_amount, p_angle))"

text \<open>The shape test shared by the push and the touch sections: rectangle against
  rectangle, rectangle against circle, circle against rectangle, circle against circle. The
  result is \<open>(xy_collision, temp_push_amount, temp_push_angle)\<close>.\<close>

definition shape_collision :: "env \<Rightarrow> mob \<Rightarrow> mob \<Rightarrow> real \<Rightarrow> bool \<times> real \<times> real" where
  "shape_collision e m_ptr m2_ptr d =
     (if fst (rectangular_dim m_ptr) \<noteq> 0 \<and> fst (rectangular_dim m2_ptr) \<noteq> 0 then
        rectangles_intersect e
          (pos m_ptr) (rectangular_dim m_ptr) (angle m_ptr)
          (pos m2_ptr) (rectangular_dim m2_ptr) (angle m2_ptr)
      else if fst (rectangular_dim m_ptr) \<noteq> 0 then
        (case circle_intersects_rectangle e
                (pos m2_ptr) (radius m2_ptr)
                (pos m_ptr) (rectangular_dim m_ptr) (angle m_ptr) of
           (c, a, g) \<Rightarrow> (c, a, g + TAU e / 2))
      else if fst (rectangular_dim m2_ptr) \<noteq> 0 then
        circle_intersects_rectangle e
          (pos m_ptr) (radius m_ptr)
          (pos m2_ptr) (rectangular_dim m2_ptr) (angle m2_ptr)
      else if d \<le> radius m_ptr + radius m2_ptr then
        (True, \<bar>d - radius m_ptr - radius m2_ptr\<bar>, get_angle e (pos m2_ptr) (pos m_ptr))
      else (False, 0, 0))"

text \<open>The \<^verbatim>\<open>else\<close> branch of the push computation (whole-body shapes), giving
  \<open>(push_amount, push_angle)\<close>.\<close>

definition push_with_shapes ::
  "env \<Rightarrow> mob \<Rightarrow> mob \<Rightarrow> nat \<Rightarrow> nat \<Rightarrow> real \<Rightarrow> real \<times> real" where
  "push_with_shapes e m_ptr m2_ptr m m2 d =
     (case shape_collision e m_ptr m2_ptr d of
        (xy_collision, temp_push_amount, temp_push_angle) \<Rightarrow>
          if xy_collision then
            (let p_amount =
                   (if pushes_softly (type m2_ptr)
                    then min temp_push_amount (PUSH_SOFTLY_AMOUNT e * delta_t e)
                    else temp_push_amount)
             in
               if both_idle_pikmin e m_ptr m2_ptr then
                 (0.1, temp_push_angle + 0.1 * (if m > m2 then 1 else 0))
               else if time_alive m_ptr < PUSH_THROTTLE_TIMEOUT e \<or>
                       time_alive m2_ptr < PUSH_THROTTLE_TIMEOUT e then
                 (p_amount *
                    (min (time_alive m_ptr) (time_alive m2_ptr) /
                       PUSH_THROTTLE_TIMEOUT e * PUSH_THROTTLE_FACTOR e),
                  temp_push_angle)
               else (p_amount, temp_push_angle))
          else (0, 0))"

text \<open>The local \<open>(push_amount, push_angle)\<close> computed for the pair. \<open>None\<close> is the null
  sprite pointer dereferenced when the pusher pushes with hitboxes but has no current
  sprite.\<close>

definition computed_push ::
  "env \<Rightarrow> mob \<Rightarrow> mob \<Rightarrow> nat \<Rightarrow> nat \<Rightarrow> real \<Rightarrow> (real \<times> real) option" where
  "computed_push e m_ptr m2_ptr m m2 d =
     (if pushes_with_hitboxes (type m2_ptr) then
        (case sprite m2_ptr of
           None \<Rightarrow> None
         | Some hs \<Rightarrow> Some (push_with_hitboxes e m_ptr m2_ptr hs (0, 0)))
      else Some (push_with_shapes e m_ptr m2_ptr m m2 d))"

definition process_mob_touches_push ::
  "env \<Rightarrow> nat \<Rightarrow> nat \<Rightarrow> real \<Rightarrow> world \<Rightarrow> world option" where
  "process_mob_touches_push e m m2 d w =
     (let m_ptr = mobs_all w ! m; m2_ptr = mobs_all w ! m2 in
        if push_applies e m_ptr m2_ptr m m2 then
          (case computed_push e m_ptr m2_ptr m m2 d of
             None \<Rightarrow> None
           | Some (p_amount, p_angle) \<Rightarrow>
               if p_amount / delta_t e > push_amount m_ptr then
                 Some (w\<lparr>mobs_all := (mobs_all w)
                          [m := m_ptr\<lparr>push_amount := p_amount / delta_t e,
                                      push_angle := p_angle\<rparr>]\<rparr>)
               else Some w)
        else Some w)"


section \<open>process_mob_touches: touch events\<close>

definition z_touch :: "mob \<Rightarrow> mob \<Rightarrow> bool" where
  "z_touch m_ptr m2_ptr =
     (if height m_ptr = 0 \<or> height m2_ptr = 0 then True
      else \<not> (z m2_ptr > z m_ptr + height m_ptr \<or> z m2_ptr + height m2_ptr < z m_ptr))"

definition process_mob_touches_touch :: "env \<Rightarrow> nat \<Rightarrow> nat \<Rightarrow> real \<Rightarrow> world \<Rightarrow> world" where
  "process_mob_touches_touch e m m2 d w =
     (let m_ptr = mobs_all w ! m; m2_ptr = mobs_all w ! m2;
          touch_op_ev = get_event m_ptr MOB_EV_TOUCHED_OPPONENT;
          touch_ob_ev = get_event m_ptr MOB_EV_TOUCHED_OBJECT
      in
        if touch_op_ev \<noteq> None \<or> touch_ob_ev \<noteq> None then
          (if z_touch m_ptr m2_ptr \<and>
              \<not> has_flag (flags m2_ptr) MOB_FLAG_INTANGIBLE \<and>
              fst (shape_collision e m_ptr m2_ptr d)
           then
             (let w1 = (case touch_ob_ev of None \<Rightarrow> w | Some ev \<Rightarrow> run_event e ev m m2 w)
              in
                case touch_op_ev of
                  None \<Rightarrow> w1
                | Some ev \<Rightarrow>
                    if can_hunt e (mobs_all w1 ! m) (mobs_all w1 ! m2)
                    then run_event e ev m m2 w1 else w1)
           else w)
        else w)"

section \<open>process_mob_touches: hitbox events\<close>

text \<open>The local variables of the hitbox loops that outlive an iteration: the world, the
  five event pointers (re-fetched after an event ran, since it may have changed the state)
  and the five flags that keep every kind of event to one report per pair.\<close>

record hitbox_loop_state =
  hl_world :: world
  hitbox_touch_an_ev :: "mob_event option"
  hitbox_touch_na_ev :: "mob_event option"
  hitbox_touch_nn_ev :: "mob_event option"
  hitbox_touch_eat_ev :: "mob_event option"
  hitbox_touch_haz_ev :: "mob_event option"
  reported_an_ev :: bool
  reported_na_ev :: bool
  reported_nn_ev :: bool
  reported_eat_ev :: bool
  reported_haz_ev :: bool

text \<open>Whether hitbox \<open>h1\<close> of \<open>m\<close> and hitbox \<open>h2\<close> of \<open>m2\<close> collide: a mob held by a
  hitbox touches it; otherwise the heights must match (a height of 0 matches any) and the
  centres must be closer than the sum of the radii.\<close>

definition hitboxes_collide ::
  "env \<Rightarrow> world \<Rightarrow> nat \<Rightarrow> nat \<Rightarrow> nat \<Rightarrow> hitbox \<Rightarrow> nat \<Rightarrow> hitbox \<Rightarrow> bool" where
  "hitboxes_collide e w m m2 h1 h1_ptr h2 h2_ptr =
     (let m_ptr = mobs_all w ! m; m2_ptr = mobs_all w ! m2;
          m1_h_pos = get_cur_pos e h1_ptr (pos m_ptr) (angle_cos m_ptr) (angle_sin m_ptr);
          m2_h_pos = get_cur_pos e h2_ptr (pos m2_ptr) (angle_cos m2_ptr) (angle_sin m2_ptr);
          m1_h_z = z m_ptr + h_z h1_ptr;
          m2_h_z = z m2_ptr + h_z h2_ptr
      in
        if (holder_m m_ptr = Some m2 \<and> holder_hitbox_idx m_ptr = h2) \<or>
           (holder_m m2_ptr = Some m \<and> holder_hitbox_idx m2_ptr = h1) then True
        else
          (let z_collision =
                 (if h_height h1_ptr = 0 \<or> h_height h2_ptr = 0 then True
                  else \<not> (m2_h_z > m1_h_z + h_height h1_ptr \<or>
                          m2_h_z + h_height h2_ptr < m1_h_z))
           in z_collision \<and> dist e m1_h_pos m2_h_pos < h_radius h1_ptr + h_radius h2_ptr))"

text \<open>Attack hitbox of \<open>m\<close> against normal hitbox of \<open>m2\<close>.\<close>

definition report_an ::
  "env \<Rightarrow> nat \<Rightarrow> nat \<Rightarrow> hitbox \<Rightarrow> hitbox \<Rightarrow> hitbox_loop_state \<Rightarrow> hitbox_loop_state" where
  "report_an e m m2 h1_ptr h2_ptr s =
     (case hitbox_touch_an_ev s of
        None \<Rightarrow> s
      | Some ev \<Rightarrow>
          if \<not> reported_an_ev s \<and> h_type h1_ptr = HITBOX_TYPE_ATTACK \<and>
             h_type h2_ptr = HITBOX_TYPE_NORMAL then
            (let w1 = run_with e ev m m2 (Info_hitbox_interaction m2 h1_ptr h2_ptr) (hl_world s);
                 m_ptr = mobs_all w1 ! m
             in s\<lparr>hl_world := w1, reported_an_ev := True,
                  hitbox_touch_eat_ev := get_event m_ptr MOB_EV_HITBOX_TOUCH_EAT,
                  hitbox_touch_haz_ev := get_event m_ptr MOB_EV_TOUCHED_HAZARD,
                  hitbox_touch_na_ev := get_event m_ptr MOB_EV_HITBOX_TOUCH_N_A,
                  hitbox_touch_nn_ev := get_event m_ptr MOB_EV_HITBOX_TOUCH_N_N\<rparr>)
          else s)"

text \<open>Normal hitbox against normal hitbox.\<close>

definition report_nn ::
  "env \<Rightarrow> nat \<Rightarrow> nat \<Rightarrow> hitbox \<Rightarrow> hitbox \<Rightarrow> hitbox_loop_state \<Rightarrow> hitbox_loop_state" where
  "report_nn e m m2 h1_ptr h2_ptr s =
     (case hitbox_touch_nn_ev s of
        None \<Rightarrow> s
      | Some ev \<Rightarrow>
          if \<not> reported_nn_ev s \<and> h_type h1_ptr = HITBOX_TYPE_NORMAL \<and>
             h_type h2_ptr = HITBOX_TYPE_NORMAL then
            (let w1 = run_with e ev m m2 (Info_hitbox_interaction m2 h1_ptr h2_ptr) (hl_world s);
                 m_ptr = mobs_all w1 ! m
             in s\<lparr>hl_world := w1, reported_nn_ev := True,
                  hitbox_touch_eat_ev := get_event m_ptr MOB_EV_HITBOX_TOUCH_EAT,
                  hitbox_touch_haz_ev := get_event m_ptr MOB_EV_TOUCHED_HAZARD,
                  hitbox_touch_na_ev := get_event m_ptr MOB_EV_HITBOX_TOUCH_N_A,
                  hitbox_touch_an_ev := get_event m_ptr MOB_EV_HITBOX_TOUCH_A_N\<rparr>)
          else s)"

text \<open>The two \<^verbatim>\<open>continue\<close> statements for a normal hitbox of \<open>m\<close> against an attack
  hitbox of \<open>m2\<close>: \<open>m\<close> resists all the hazards of the attack, or \<open>m2\<close> may not hurt \<open>m\<close>.\<close>

definition damage_ruled_out :: "env \<Rightarrow> world \<Rightarrow> nat \<Rightarrow> nat \<Rightarrow> hitbox \<Rightarrow> hitbox \<Rightarrow> bool" where
  "damage_ruled_out e w m m2 h1_ptr h2_ptr \<longleftrightarrow>
     h_type h1_ptr = HITBOX_TYPE_NORMAL \<and> h_type h2_ptr = HITBOX_TYPE_ATTACK \<and>
     ((h_hazards h2_ptr \<noteq> [] \<and>
       is_resistant_to_hazards e (mobs_all w ! m) (h_hazards h2_ptr)) \<or>
      \<not> can_hurt e (mobs_all w ! m2) (mobs_all w ! m))"

definition disable_attack_status :: "world \<Rightarrow> nat \<Rightarrow> bool" where
  "disable_attack_status w m2 = list_ex disables_attack (statuses (mobs_all w ! m2))"

text \<open>The eat event. \<open>dis\<close> is \<open>disable_attack_status\<close>, computed once before the three
  events that need it.\<close>

definition report_eat ::
  "env \<Rightarrow> nat \<Rightarrow> nat \<Rightarrow> hitbox \<Rightarrow> hitbox \<Rightarrow> bool \<Rightarrow> hitbox_loop_state \<Rightarrow>
   hitbox_loop_state" where
  "report_eat e m m2 h1_ptr h2_ptr dis s =
     (case hitbox_touch_eat_ev s of
        None \<Rightarrow> s
      | Some ev \<Rightarrow>
          (let m2_ptr = mobs_all (hl_world s) ! m2 in
             if \<not> reported_eat_ev s \<and> \<not> dis \<and> h_type h1_ptr = HITBOX_TYPE_NORMAL \<and>
                length (chomping_mobs m2_ptr) < chomp_max m2_ptr \<and>
                h_body_part_idx h2_ptr \<in> set (chomp_body_parts m2_ptr) then
               (let w1 = run_with e ev m m2 (Info_eat m2 h2_ptr) (hl_world s);
                    m_ptr = mobs_all w1 ! m
                in s\<lparr>hl_world := w1, reported_eat_ev := True,
                     hitbox_touch_haz_ev := get_event m_ptr MOB_EV_TOUCHED_HAZARD,
                     hitbox_touch_na_ev := get_event m_ptr MOB_EV_HITBOX_TOUCH_N_A\<rparr>)
             else s))"

text \<open>The hazard event runs once for every hazard of the attack hitbox, all through the
  event pointer held when the first one ran.\<close>

fun run_hazards ::
  "env \<Rightarrow> mob_event \<Rightarrow> nat \<Rightarrow> nat \<Rightarrow> hitbox \<Rightarrow> hitbox \<Rightarrow> nat list \<Rightarrow> world \<Rightarrow> world" where
  "run_hazards e ev m m2 h1_ptr h2_ptr [] w = w"
| "run_hazards e ev m m2 h1_ptr h2_ptr (h # hs) w =
     run_hazards e ev m m2 h1_ptr h2_ptr hs
       (run_with e ev m m2 (Info_hazard h m2 h1_ptr h2_ptr) w)"

definition report_haz ::
  "env \<Rightarrow> nat \<Rightarrow> nat \<Rightarrow> hitbox \<Rightarrow> hitbox \<Rightarrow> bool \<Rightarrow> hitbox_loop_state \<Rightarrow>
   hitbox_loop_state" where
  "report_haz e m m2 h1_ptr h2_ptr dis s =
     (case hitbox_touch_haz_ev s of
        None \<Rightarrow> s
      | Some ev \<Rightarrow>
          if \<not> reported_haz_ev s \<and> \<not> dis \<and> h_type h1_ptr = HITBOX_TYPE_NORMAL \<and>
             h_type h2_ptr = HITBOX_TYPE_ATTACK \<and> h_hazards h2_ptr \<noteq> [] then
            (let w1 = run_hazards e ev m m2 h1_ptr h2_ptr (h_hazards h2_ptr) (hl_world s) in
               s\<lparr>hl_world := w1, reported_haz_ev := True,
                 hitbox_touch_na_ev := get_event (mobs_all w1 ! m) MOB_EV_HITBOX_TOUCH_N_A\<rparr>)
          else s)"

text \<open>Normal hitbox of \<open>m\<close> against attack hitbox of \<open>m2\<close>.\<close>

definition report_na ::
  "env \<Rightarrow> nat \<Rightarrow> nat \<Rightarrow> hitbox \<Rightarrow> hitbox \<Rightarrow> bool \<Rightarrow> hitbox_loop_state \<Rightarrow>
   hitbox_loop_state" where
  "report_na e m m2 h1_ptr h2_ptr dis s =
     (case hitbox_touch_na_ev s of
        None \<Rightarrow> s
      | Some ev \<Rightarrow>
          if \<not> reported_na_ev s \<and> \<not> dis \<and> h_type h1_ptr = HITBOX_TYPE_NORMAL \<and>
             h_type h2_ptr = HITBOX_TYPE_ATTACK then
            s\<lparr>hl_world :=
                 run_with e ev m m2 (Info_hitbox_interaction m2 h1_ptr h2_ptr) (hl_world s),
              reported_na_ev := True\<rparr>
          else s)"

text \<open>The body of the inner loop, for hitbox number \<open>h1\<close> of \<open>m\<close> (not disabled) and
  hitbox number \<open>h2\<close> of \<open>m2\<close>.\<close>

definition hitbox_pair ::
  "env \<Rightarrow> nat \<Rightarrow> nat \<Rightarrow> nat \<times> hitbox \<Rightarrow> nat \<times> hitbox \<Rightarrow> hitbox_loop_state \<Rightarrow>
   hitbox_loop_state" where
  "hitbox_pair e m m2 h1p h2p s =
     (case h1p of (h1, h1_ptr) \<Rightarrow> case h2p of (h2, h2_ptr) \<Rightarrow>
        if h_type h2_ptr = HITBOX_TYPE_DISABLED then s
        else if \<not> hitboxes_collide e (hl_world s) m m2 h1 h1_ptr h2 h2_ptr then s
        else
          (let s1 = report_nn e m m2 h1_ptr h2_ptr (report_an e m m2 h1_ptr h2_ptr s) in
             if damage_ruled_out e (hl_world s1) m m2 h1_ptr h2_ptr then s1
             else
               (let dis = disable_attack_status (hl_world s1) m2 in
                  report_na e m m2 h1_ptr h2_ptr dis
                    (report_haz e m m2 h1_ptr h2_ptr dis
                       (report_eat e m m2 h1_ptr h2_ptr dis s1)))))"

text \<open>The body of the outer loop.\<close>

definition hitbox_row ::
  "env \<Rightarrow> nat \<Rightarrow> nat \<Rightarrow> hitbox list \<Rightarrow> nat \<times> hitbox \<Rightarrow> hitbox_loop_state \<Rightarrow>
   hitbox_loop_state" where
  "hitbox_row e m m2 hs2 h1p s =
     (if h_type (snd h1p) = HITBOX_TYPE_DISABLED then s
      else fold (hitbox_pair e m m2 h1p) (enumerate 0 hs2) s)"

definition process_mob_touches_hitboxes :: "env \<Rightarrow> nat \<Rightarrow> nat \<Rightarrow> world \<Rightarrow> world" where
  "process_mob_touches_hitboxes e m m2 w =
     (let m_ptr = mobs_all w ! m; m2_ptr = mobs_all w ! m2;
          s = \<lparr>hl_world = w,
               hitbox_touch_an_ev = get_event m_ptr MOB_EV_HITBOX_TOUCH_A_N,
               hitbox_touch_na_ev = get_event m_ptr MOB_EV_HITBOX_TOUCH_N_A,
               hitbox_touch_nn_ev = get_event m_ptr MOB_EV_HITBOX_TOUCH_N_N,
               hitbox_touch_eat_ev = get_event m_ptr MOB_EV_HITBOX_TOUCH_EAT,
               hitbox_touch_haz_ev = get_event m_ptr MOB_EV_TOUCHED_HAZARD,
               reported_an_ev = False, reported_na_ev = False, reported_nn_ev = False,
               reported_eat_ev = False, reported_haz_ev = False\<rparr>
      in
        if hitbox_touch_an_ev s \<noteq> None \<or> hitbox_touch_na_ev s \<noteq> None \<or>
           hitbox_touch_nn_ev s \<noteq> None \<or> hitbox_touch_eat_ev s \<noteq> None then
          (case sprite m_ptr of
             None \<Rightarrow> w
           | Some hs1 \<Rightarrow>
               (case sprite m2_ptr of
                  None \<Rightarrow> w
                | Some hs2 \<Rightarrow>
                    if hs1 \<noteq> [] \<and> hs2 \<noteq> []
                    then hl_world (fold (hitbox_row e m m2 hs2) (enumerate 0 hs1) s)
                    else w))
        else w)"


section \<open>process_mob_touches as a whole\<close>

definition process_mob_touches :: "env \<Rightarrow> nat \<Rightarrow> nat \<Rightarrow> real \<Rightarrow> world \<Rightarrow> world option" where
  "process_mob_touches e m m2 d w =
     (case process_mob_touches_push e m m2 d w of
        None \<Rightarrow> None
      | Some w1 \<Rightarrow>
          Some (process_mob_touches_hitboxes e m m2
                  (process_mob_touches_touch e m m2 d w1)))"


section \<open>process_mob_reaches and process_mob_misc_interactions\<close>

definition pending :: "real \<Rightarrow> mob_event \<Rightarrow> nat \<Rightarrow> pending_intermob_event" where
  "pending d ev m2 = \<lparr>pe_d = d, pe_event_ptr = Some ev, pe_mob_ptr = m2\<rparr>"

text \<open>\<open>None\<close> is the read of \<^verbatim>\<open>type->reaches[near_reach]\<close> outside the vector.\<close>

definition process_mob_reaches ::
  "env \<Rightarrow> mob \<Rightarrow> mob \<Rightarrow> nat \<Rightarrow> real \<Rightarrow> pending_intermob_event list \<Rightarrow>
   pending_intermob_event list option" where
  "process_mob_reaches e m_ptr m2_ptr m2 d_between pend =
     (let obir_ev = get_event m_ptr MOB_EV_OBJECT_IN_REACH;
          opir_ev = get_event m_ptr MOB_EV_OPPONENT_IN_REACH
      in
        if obir_ev = None \<and> opir_ev = None then Some pend
        else
          (case near_reach m_ptr of
             None \<Rightarrow> None
           | Some r \<Rightarrow>
               if r < length (reaches (type m_ptr)) then
                 (let r_ptr = reaches (type m_ptr) ! r;
                      angle_diff =
                        get_angle_smallest_dif e (angle m_ptr)
                          (get_angle e (pos m_ptr) (pos m2_ptr))
                  in
                    if is_mob_in_reach e r_ptr d_between angle_diff then
                      (let pend1 =
                             (case obir_ev of
                                None \<Rightarrow> pend
                              | Some ev \<Rightarrow> pend @ [pending d_between ev m2])
                       in
                         case opir_ev of
                           None \<Rightarrow> Some pend1
                         | Some ev \<Rightarrow>
                             if can_hunt e m_ptr m2_ptr
                             then Some (pend1 @ [pending d_between ev m2])
                             else Some pend1)
                    else Some pend)
               else None))"

definition process_mob_misc_interactions ::
  "env \<Rightarrow> world \<Rightarrow> nat \<Rightarrow> nat \<Rightarrow> real \<Rightarrow> real \<Rightarrow> pending_intermob_event list \<Rightarrow>
   pending_intermob_event list" where
  "process_mob_misc_interactions e w m m2 d d_between pend =
     (let m_ptr = mobs_all w ! m; m2_ptr = mobs_all w ! m2;
          pend1 =
            (case get_event m_ptr MOB_EV_NEAR_CARRIABLE_OBJECT of
               None \<Rightarrow> pend
             | Some nco_event \<Rightarrow>
                 (case carry_info m2_ptr of
                    None \<Rightarrow> pend
                  | Some ci \<Rightarrow>
                      if \<not> is_full ci \<and> d_between \<le> task_range e m_ptr
                      then pend @ [pending d_between nco_event m2] else pend));
          pend2 =
            (case get_event m_ptr MOB_EV_NEAR_TOOL of
               None \<Rightarrow> pend1
             | Some nto_event \<Rightarrow>
                 (case kind m2_ptr of
                    Kind_Tool reserved \<Rightarrow>
                      if d_between \<le> task_range e m_ptr then
                        (if reserved \<noteq> None \<and> reserved \<noteq> Some m then pend1
                         else pend1 @ [pending d_between nto_event m2])
                      else pend1
                  | _ \<Rightarrow> pend1));
          pend3 =
            (case get_event m_ptr MOB_EV_NEAR_GROUP_TASK of
               None \<Rightarrow> pend2
             | Some ngto_event \<Rightarrow>
                 (case kind m2_ptr of
                    Kind_GroupTask free_spot \<Rightarrow>
                      if health m2_ptr > 0 \<and> d_between \<le> task_range e m_ptr then
                        (if \<not> free_spot then pend2
                         else pend2 @ [pending d_between ngto_event m2])
                      else pend2
                  | _ \<Rightarrow> pend2))
      in
        case get_event m_ptr MOB_EV_TOUCHED_ACTIVE_LEADER of
          None \<Rightarrow> pend3
        | Some touch_le_ev \<Rightarrow>
            if cur_leader_ptr w = Some m2 \<and>
               state_id (cur_state m2_ptr) = LEADER_STATE_ACTIVE e \<and>
               d \<le> idle_bump_range e
            then pend3 @ [pending d_between touch_le_ev m2] else pend3)"


section \<open>process_mob_interactions\<close>

text \<open>What the body of the loop over \<open>m2\<close> decides for the pair before any interaction is
  looked at: one constructor per \<^verbatim>\<open>continue\<close>, in the order of the source.\<close>

datatype pair_verdict =
  Skip_same | Skip_inactive | Skip_to_delete | Skip_stored | Skip_too_far | Interact

text \<open>The literal \<^verbatim>\<open>0.1f\<close> that \<^verbatim>\<open>time_alive\<close> is compared with: the
  single-precision number nearest to one tenth, \<open>13421773 / 134217728\<close>, slightly above
  one tenth. \<^verbatim>\<open>time_alive\<close> is a \<^verbatim>\<open>float\<close> itself, so the comparison of the
  source is the comparison of the two numbers. Where the same literal is a magnitude and
  not the bound of a comparison (the reduced push between idle Pikmin), the real number one
  tenth stands for it, as real numbers stand for the floats of the source throughout.\<close>

definition float_0_1 :: real where
  "float_0_1 = 13421773 / 134217728"

definition verdict :: "env \<Rightarrow> world \<Rightarrow> nat \<Rightarrow> nat \<Rightarrow> pair_verdict" where
  "verdict e w m m2 =
     (let m_ptr = mobs_all w ! m; m2_ptr = mobs_all w ! m2 in
        if m = m2 then Skip_same
        else if \<not> has_flag (inactive_logic (type m2_ptr)) INACTIVE_LOGIC_FLAG_INTERACTIONS \<and>
                \<not> is_active m2_ptr \<and> time_alive m_ptr > float_0_1 then Skip_inactive
        else if to_delete m2_ptr then Skip_to_delete
        else if is_stored_inside_mob m2_ptr then Skip_stored
        else
          (let d = dist e (pos m_ptr) (pos m2_ptr);
               d_between = get_distance_between e m_ptr m2_ptr d
           in
             if d_between > interaction_span m_ptr + physical_span m2_ptr
             then Skip_too_far else Interact))"

definition interact_pair ::
  "env \<Rightarrow> nat \<Rightarrow> nat \<Rightarrow> world \<times> pending_intermob_event list \<Rightarrow>
   (world \<times> pending_intermob_event list) option" where
  "interact_pair e m m2 acc =
     (case acc of (w, pend) \<Rightarrow>
        (case verdict e w m m2 of
           Interact \<Rightarrow>
             (let m_ptr = mobs_all w ! m; m2_ptr = mobs_all w ! m2;
                  d = dist e (pos m_ptr) (pos m2_ptr);
                  d_between = get_distance_between e m_ptr m2_ptr d
              in
                case (if d \<le> physical_span m_ptr + physical_span m2_ptr
                      then process_mob_touches e m m2 d w else Some w) of
                  None \<Rightarrow> None
                | Some w1 \<Rightarrow>
                    (let m_ptr1 = mobs_all w1 ! m; m2_ptr1 = mobs_all w1 ! m2 in
                       case (if health m2_ptr1 \<noteq> 0 \<and> near_reach m_ptr1 \<noteq> None \<and>
                                \<not> has_invisibility_status m2_ptr1
                             then process_mob_reaches e m_ptr1 m2_ptr1 m2 d_between pend
                             else Some pend) of
                         None \<Rightarrow> None
                       | Some pend1 \<Rightarrow>
                           Some (w1,
                             process_mob_misc_interactions e w1 m m2 d d_between pend1)))
         | _ \<Rightarrow> Some (w, pend)))"

fun pair_loop ::
  "env \<Rightarrow> nat \<Rightarrow> nat list \<Rightarrow> world \<times> pending_intermob_event list \<Rightarrow>
   (world \<times> pending_intermob_event list) option" where
  "pair_loop e m [] acc = Some acc"
| "pair_loop e m (m2 # rest) acc =
     (case interact_pair e m m2 acc of
        None \<Rightarrow> None
      | Some acc1 \<Rightarrow> pair_loop e m rest acc1)"

text \<open>The key the comparator handed to \<^verbatim>\<open>std::sort\<close> orders by.\<close>

definition pending_key :: "world \<Rightarrow> nat \<Rightarrow> pending_intermob_event \<Rightarrow> real" where
  "pending_key w m p = pe_d p - (radius (mobs_all w ! m) + radius (mobs_all w ! pe_mob_ptr p))"

text \<open>The loop over the sorted pending events.\<close>

fun dispatch_pending ::
  "env \<Rightarrow> nat \<Rightarrow> mob_state \<Rightarrow> pending_intermob_event list \<Rightarrow> world \<Rightarrow> world" where
  "dispatch_pending e m state_before [] w = w"
| "dispatch_pending e m state_before (p # ps) w =
     (if cur_state (mobs_all w ! m) \<noteq> state_before then w
      else
        (case pe_event_ptr p of
           None \<Rightarrow> dispatch_pending e m state_before ps w
         | Some ev \<Rightarrow>
             dispatch_pending e m state_before ps (run_event e ev m (pe_mob_ptr p) w)))"

text \<open>Ghost function: the pending events that loop runs, in the order it runs them.\<close>

fun dispatched ::
  "env \<Rightarrow> nat \<Rightarrow> mob_state \<Rightarrow> pending_intermob_event list \<Rightarrow> world \<Rightarrow>
   pending_intermob_event list" where
  "dispatched e m state_before [] w = []"
| "dispatched e m state_before (p # ps) w =
     (if cur_state (mobs_all w ! m) \<noteq> state_before then []
      else
        (case pe_event_ptr p of
           None \<Rightarrow> dispatched e m state_before ps w
         | Some ev \<Rightarrow>
             p # dispatched e m state_before ps (run_event e ev m (pe_mob_ptr p) w)))"

definition process_mob_interactions :: "env \<Rightarrow> nat \<Rightarrow> world \<Rightarrow> world option" where
  "process_mob_interactions e m w =
     (let state_before = cur_state (mobs_all w ! m);
          n_mobs = length (mobs_all w)
      in
        case pair_loop e m [0..<n_mobs] (w, []) of
          None \<Rightarrow> None
        | Some (w1, pend) \<Rightarrow>
            Some (dispatch_pending e m state_before
                    (std_sort e (pending_key w1 m) pend) w1))"


section \<open>do_gameplay_logic: ticking every mob, then the deletion sweep\<close>

definition tick_skipped :: "mob \<Rightarrow> bool" where
  "tick_skipped m_ptr \<longleftrightarrow>
     \<not> has_flag (inactive_logic (type m_ptr)) INACTIVE_LOGIC_FLAG_TICKS \<and>
     \<not> is_active m_ptr \<and> time_alive m_ptr > float_0_1"

fun tick_loop :: "env \<Rightarrow> nat list \<Rightarrow> world \<Rightarrow> world option" where
  "tick_loop e [] w = Some w"
| "tick_loop e (m # ms) w =
     (if tick_skipped (mobs_all w ! m) then tick_loop e ms w
      else
        (let w1 = tick_mob e m w in
           if \<not> is_stored_inside_mob (mobs_all w1 ! m) then
             (case process_mob_interactions e m w1 of
                None \<Rightarrow> None
              | Some w2 \<Rightarrow> tick_loop e ms w2)
           else tick_loop e ms w1))"

text \<open>Modelled from the spec: \<^verbatim>\<open>delete_mob\<close> is only declared in the given sources.
  A mob is destroyed at the end of the tick in which its \<open>to_delete\<close> flag became true, which
  takes it out of the global mob list.\<close>

definition delete_mob :: "nat \<Rightarrow> mob list \<Rightarrow> mob list" where
  "delete_mob m xs = take m xs @ drop (Suc m) xs"

function sweep :: "nat \<Rightarrow> nat \<Rightarrow> mob list \<Rightarrow> mob list" where
  "sweep n_mobs m xs =
     (if m < n_mobs then
        (if to_delete (xs ! m) then sweep (n_mobs - 1) m (delete_mob m xs)
         else sweep n_mobs (Suc m) xs)
      else xs)"
  by pat_completeness auto
termination
  by (relation "measure (\<lambda>(n_mobs, m, xs). n_mobs - m)") auto

definition do_gameplay_logic_mobs :: "env \<Rightarrow> world \<Rightarrow> world option" where
  "do_gameplay_logic_mobs e w =
     (let n_mobs = length (mobs_all w) in
        case tick_loop e [0..<n_mobs] w of
          None \<Rightarrow> None
        | Some w1 \<Rightarrow> Some (w1\<lparr>mobs_all := sweep n_mobs 0 (mobs_all w1)\<rparr>))"


section \<open>update_mob_is_active_flag\<close>

text \<open>The conversion of a \<^verbatim>\<open>float\<close> to \<^verbatim>\<open>int\<close> drops the fraction.\<close>

definition float_to_int :: "real \<Rightarrow> int" where
  "float_to_int r = (if r < 0 then \<lceil>r\<rceil> else \<lfloor>r\<rfloor>)"

definition cell_x :: "env \<Rightarrow> mob \<Rightarrow> int" where
  "cell_x e m_ptr = float_to_int ((fst (pos m_ptr) - fst (top_left_corner e)) / AREA_CELL_SIZE e)"

definition cell_y :: "env \<Rightarrow> mob \<Rightarrow> int" where
  "cell_y e m_ptr = float_to_int ((snd (pos m_ptr) - snd (top_left_corner e)) / AREA_CELL_SIZE e)"

text \<open>The value the first loop writes into \<open>is_active\<close>.\<close>

definition cell_flag :: "env \<Rightarrow> bool list list \<Rightarrow> mob \<Rightarrow> bool" where
  "cell_flag e cells m_ptr =
     (if cell_x e m_ptr < 0 \<or> cell_x e m_ptr \<ge> int (length cells) then False
      else if cell_y e m_ptr < 0 \<or> cell_y e m_ptr \<ge> int (length (cells ! 0)) then False
      else cells ! nat (cell_x e m_ptr) ! nat (cell_y e m_ptr))"

definition flags_from_cells :: "env \<Rightarrow> bool list list \<Rightarrow> mob list \<Rightarrow> mob list" where
  "flags_from_cells e cells xs = map (\<lambda>m_ptr. m_ptr\<lparr>is_active := cell_flag e cells m_ptr\<rparr>) xs"

definition child_mobs :: "mob list \<Rightarrow> nat list" where
  "child_mobs xs = filter (\<lambda>i. parent (xs ! i) \<noteq> None) [0..<length xs]"

text \<open>Second loop: an active child makes its parent active.\<close>

fun activate_parents :: "nat list \<Rightarrow> mob list \<Rightarrow> mob list" where
  "activate_parents [] xs = xs"
| "activate_parents (c # cs) xs =
     activate_parents cs
       (case parent (xs ! c) of
          None \<Rightarrow> xs
        | Some p \<Rightarrow> if is_active (xs ! c) then xs[p := (xs ! p)\<lparr>is_active := True\<rparr>] else xs)"

text \<open>Third loop: an active parent makes its child active.\<close>

fun activate_children :: "nat list \<Rightarrow> mob list \<Rightarrow> mob list" where
  "activate_children [] xs = xs"
| "activate_children (c # cs) xs =
     activate_children cs
       (case parent (xs ! c) of
          None \<Rightarrow> xs
        | Some p \<Rightarrow> if is_active (xs ! p) then xs[c := (xs ! c)\<lparr>is_active := True\<rparr>] else xs)"

definition update_mob_is_active_flag :: "env \<Rightarrow> world \<Rightarrow> world" where
  "update_mob_is_active_flag e w =
     (let xs = flags_from_cells e (area_active_cells w) (mobs_all w);
          cs = set_order e (child_mobs xs)
      in w\<lparr>mobs_all := activate_children cs (activate_parents cs xs)\<rparr>)"


section \<open>The script runtime and the flukeweed script\<close>

text \<open>
  The script of the flukeweed group task is part of the given sources; the runtime that
  executes scripts (\<^verbatim>\<open>mob_fsm.cpp\<close>, \<^verbatim>\<open>mob_script_action.cpp\<close>) is
  not, only the header that declares the actions. The runtime below is therefore written
  from the specification, sections 3, 4.1, 4.2 and 4.3.

  A script variable holds a string in the engine. Here a value is either a number or a text
  that is not a number, which is what the comparison rule of the specification
  distinguishes.
\<close>

datatype fsm_value = V_num real | V_str string
datatype action_arg = Lit fsm_value | Var string
datatype cmp_op = Op_eq | Op_ne | Op_lt | Op_le | Op_gt | Op_ge
datatype fsm_ev =
  On_enter | On_leave | On_timer | On_touch_object | On_receive_message | On_animation_end
datatype payload = No_payload | Message string | Trigger_mob nat

datatype action_call =
  A_if action_arg cmp_op action_arg | A_else | A_end_if
  | A_set_state string
  | A_set_var string action_arg
  | A_set_timer action_arg
  | A_add_health action_arg
  | A_get_event_info_message string
  | A_get_mob_info_self_group_task_power string
  | A_delete
  | A_other string "string list"

record fsm_state =
  st_name :: string
  st_events :: "(fsm_ev \<times> action_call list) list"

record script =
  first_state :: string
  death_state :: string
  init_actions :: "action_call list"
  global_events :: "(fsm_ev \<times> action_call list) list"
  states :: "fsm_state list"

record script_mob =
  s_state :: nat
  s_prev_states :: "string list"
  s_vars :: "string \<Rightarrow> fsm_value option"
  s_timer :: real
  s_health :: real
  s_max_health :: real
  s_group_task_power :: real
  s_to_delete :: bool

text \<open>What the runtime leaves open: how a number is printed when it is compared as
  text, and how many previous state names a mob remembers.\<close>

record fsm_env =
  num_text :: "real \<Rightarrow> string"
  ring_capacity :: nat

text \<open>The script file \<^verbatim>\<open>group_tasks/flukeweed/script.txt\<close>, block by block. Actions
  that act on parts of a mob not modelled here (animation, focus, particles, shadow, stored
  mobs) are kept by name as \<open>A_other\<close>.\<close>

definition flukeweed :: script where
  "flukeweed =
     \<lparr>first_state = ''capturing'',
      death_state = ''dying'',
      init_actions = [A_set_var ''capturing'' (Lit (V_str ''true''))],
      global_events =
        [(On_receive_message, [A_get_event_info_message ''msg''])],
      states =
        [\<lparr>st_name = ''capturing'',
          st_events =
            [(On_enter, [A_set_timer (Lit (V_num 0.1))]),
             (On_timer,
                [A_set_var ''capturing'' (Lit (V_str ''false'')),
                 A_set_state ''idling'']),
             (On_touch_object,
                [A_if (Var ''capturing'') Op_eq (Lit (V_str ''true'')),
                 A_other ''focus'' [''trigger''],
                 A_other ''store_focus_inside'' [],
                 A_end_if])]\<rparr>,
         \<lparr>st_name = ''idling'',
          st_events =
            [(On_enter, [A_other ''set_animation'' [''idling'', ''random_time_on_spawn'']]),
             (On_receive_message,
                [A_if (Var ''msg'') Op_eq (Lit (V_str ''goal_reached'')),
                 A_set_state ''pulled'',
                 A_end_if])]\<rparr>,
         \<lparr>st_name = ''pulled'',
          st_events =
            [(On_enter,
                [A_other ''set_animation'' [''pulled''],
                 A_get_mob_info_self_group_task_power ''p'',
                 A_if (Var ''p'') Op_le (Lit (V_num 3)),
                 A_set_timer (Lit (V_num 1.5)),
                 A_else,
                 A_if (Var ''p'') Op_eq (Lit (V_num 4)),
                 A_set_timer (Lit (V_num 1.25)),
                 A_else,
                 A_set_timer (Lit (V_num 1)),
                 A_end_if,
                 A_end_if]),
             (On_timer,
                [A_add_health (Lit (V_num (- 20))),
                 A_get_mob_info_self_group_task_power ''p'',
                 A_if (Var ''p'') Op_le (Lit (V_num 3)),
                 A_set_timer (Lit (V_num 1.5)),
                 A_else,
                 A_if (Var ''p'') Op_eq (Lit (V_num 4)),
                 A_set_timer (Lit (V_num 1.25)),
                 A_else,
                 A_set_timer (Lit (V_num 1)),
                 A_end_if,
                 A_end_if]),
             (On_receive_message,
                [A_if (Var ''msg'') Op_eq (Lit (V_str ''goal_lost'')),
                 A_set_state ''idling'',
                 A_end_if])]\<rparr>,
         \<lparr>st_name = ''dying'',
          st_events =
            [(On_enter,
                [A_other ''set_animation'' [''dying''],
                 A_other ''release_stored_mobs'' [],
                 A_other ''start_particles'' [''dust_explosion''],
                 A_other ''set_shadow_visibility'' [''false'']]),
             (On_animation_end, [A_delete])]\<rparr>]\<rparr>"

text \<open>Modelled from the spec: reading a variable is not in the given sources. An absent
  key reads as the empty string.\<close>

definition lookup_var :: "(string \<Rightarrow> fsm_value option) \<Rightarrow> string \<Rightarrow> fsm_value" where
  "lookup_var vs k = (case vs k of None \<Rightarrow> V_str [] | Some v \<Rightarrow> v)"

fun arg_value :: "(string \<Rightarrow> fsm_value option) \<Rightarrow> action_arg \<Rightarrow> fsm_value" where
  "arg_value vs (Lit v) = v"
| "arg_value vs (Var k) = lookup_var vs k"

text \<open>Modelled from the spec: the comparison of \<^verbatim>\<open>if\<close> is not in the given
  sources. Both operands are compared as numbers if both are numbers, else as strings in
  lexicographic order.\<close>

fun as_text :: "fsm_env \<Rightarrow> fsm_value \<Rightarrow> string" where
  "as_text fe (V_str s) = s"
| "as_text fe (V_num x) = num_text fe x"

fun as_number :: "fsm_value \<Rightarrow> real" where
  "as_number (V_num x) = x"
| "as_number (V_str s) = 0"

fun holds :: "cmp_op \<Rightarrow> 'a::linorder \<Rightarrow> 'a \<Rightarrow> bool" where
  "holds Op_eq a b = (a = b)"
| "holds Op_ne a b = (a \<noteq> b)"
| "holds Op_lt a b = (a < b)"
| "holds Op_le a b = (a \<le> b)"
| "holds Op_gt a b = (a > b)"
| "holds Op_ge a b = (a \<ge> b)"

fun compare_values :: "fsm_env \<Rightarrow> cmp_op \<Rightarrow> fsm_value \<Rightarrow> fsm_value \<Rightarrow> bool" where
  "compare_values fe ope (V_num a) (V_num b) = holds ope a b"
| "compare_values fe ope a b = holds ope (as_text fe a) (as_text fe b)"

text \<open>Modelled from the spec: the conditional-skip rule is not in the given sources. A
  false \<^verbatim>\<open>if\<close> skips forward past its matching \<^verbatim>\<open>else\<close> if there is one,
  else past its matching \<^verbatim>\<open>end_if\<close>; an \<^verbatim>\<open>else\<close> reached after a taken
  branch skips past the matching \<^verbatim>\<open>end_if\<close>. \<open>depth\<close> counts the conditionals
  opened inside the skipped part.\<close>

fun skip_false_branch :: "nat \<Rightarrow> action_call list \<Rightarrow> action_call list" where
  "skip_false_branch depth [] = []"
| "skip_false_branch depth (A_if a ope b # rest) = skip_false_branch (Suc depth) rest"
| "skip_false_branch depth (A_else # rest) =
     (if depth = 0 then rest else skip_false_branch depth rest)"
| "skip_false_branch depth (A_end_if # rest) =
     (if depth = 0 then rest else skip_false_branch (depth - 1) rest)"
| "skip_false_branch depth (a # rest) = skip_false_branch depth rest"

fun skip_to_end_if :: "nat \<Rightarrow> action_call list \<Rightarrow> action_call list" where
  "skip_to_end_if depth [] = []"
| "skip_to_end_if depth (A_if a ope b # rest) = skip_to_end_if (Suc depth) rest"
| "skip_to_end_if depth (A_end_if # rest) =
     (if depth = 0 then rest else skip_to_end_if (depth - 1) rest)"
| "skip_to_end_if depth (a # rest) = skip_to_end_if depth rest"

lemma length_skip_false_branch: "length (skip_false_branch depth acts) \<le> length acts"
  by (induction depth acts rule: skip_false_branch.induct) auto

lemma length_skip_to_end_if: "length (skip_to_end_if depth acts) \<le> length acts"
  by (induction depth acts rule: skip_to_end_if.induct) auto

text \<open>Modelled from the spec: the lookup of a state by name is not in the given sources.
  A transition validates that its target exists.\<close>

definition state_index :: "script \<Rightarrow> string \<Rightarrow> nat option" where
  "state_index sc nm =
     (case filter (\<lambda>i. st_name (states sc ! i) = nm) [0..<length (states sc)] of
        [] \<Rightarrow> None | i # _ \<Rightarrow> Some i)"

text \<open>Modelled from the spec: the action runners are only declared in the given sources.
  Health is clamped to \<open>[0, max_health]\<close>; \<^verbatim>\<open>get_event_info\<close> stores the message
  that triggered the event; \<^verbatim>\<open>get_mob_info ... group_task_power\<close> stores the power
  of the group task; \<^verbatim>\<open>delete\<close> sets the to-delete flag.\<close>

definition clamp_health :: "script_mob \<Rightarrow> real \<Rightarrow> real" where
  "clamp_health mb h = max 0 (min (s_max_health mb) h)"

fun run_action :: "payload \<Rightarrow> action_call \<Rightarrow> script_mob \<Rightarrow> script_mob" where
  "run_action pl (A_set_var k a) mb = mb\<lparr>s_vars := (s_vars mb)(k \<mapsto> arg_value (s_vars mb) a)\<rparr>"
| "run_action pl (A_set_timer a) mb = mb\<lparr>s_timer := as_number (arg_value (s_vars mb) a)\<rparr>"
| "run_action pl (A_add_health a) mb =
     mb\<lparr>s_health := clamp_health mb (s_health mb + as_number (arg_value (s_vars mb) a))\<rparr>"
| "run_action pl (A_get_event_info_message k) mb =
     (case pl of Message s \<Rightarrow> mb\<lparr>s_vars := (s_vars mb)(k \<mapsto> V_str s)\<rparr> | _ \<Rightarrow> mb)"
| "run_action pl (A_get_mob_info_self_group_task_power k) mb =
     mb\<lparr>s_vars := (s_vars mb)(k \<mapsto> V_num (s_group_task_power mb))\<rparr>"
| "run_action pl A_delete mb = mb\<lparr>s_to_delete := True\<rparr>"
| "run_action pl a mb = mb"

text \<open>Modelled from the spec: running an action list is not in the given sources. The
  list is run front to back (the flukeweed script has neither \<^verbatim>\<open>goto\<close> nor
  \<^verbatim>\<open>label\<close>); \<^verbatim>\<open>set_state\<close> only records the requested state, the
  last request winning, and a request for a state that does not exist is ignored.\<close>

function exec ::
  "script \<Rightarrow> fsm_env \<Rightarrow> payload \<Rightarrow> action_call list \<Rightarrow> script_mob \<times> nat option \<Rightarrow>
   script_mob \<times> nat option" where
  "exec sc fe pl [] acc = acc"
| "exec sc fe pl (a # rest) (mb, req) =
     (case a of
        A_if x ope y \<Rightarrow>
          if compare_values fe ope (arg_value (s_vars mb) x) (arg_value (s_vars mb) y)
          then exec sc fe pl rest (mb, req)
          else exec sc fe pl (skip_false_branch 0 rest) (mb, req)
      | A_else \<Rightarrow> exec sc fe pl (skip_to_end_if 0 rest) (mb, req)
      | A_end_if \<Rightarrow> exec sc fe pl rest (mb, req)
      | A_set_state nm \<Rightarrow>
          (case state_index sc nm of
             None \<Rightarrow> exec sc fe pl rest (mb, req)
           | Some i \<Rightarrow> exec sc fe pl rest (mb, Some i))
      | _ \<Rightarrow> exec sc fe pl rest (run_action pl a mb, req))"
  by pat_completeness auto
termination
  by (relation "measure (\<lambda>(sc, fe, pl, acts, acc). length acts)")
     (auto simp: length_skip_false_branch length_skip_to_end_if le_imp_less_Suc)

text \<open>Modelled from the spec: the lookup of the action list is not in the given sources.
  A global handler applies regardless of the current state (section 3): in a state that has
  no handler for the event, the global list is the handler (section 4.3); in a state that has
  one, the global actions run first and the state's own actions after them. The flukeweed
  script depends on this order, its states reading in \<open>$msg\<close> what the global handler has
  just stored there, and the header of the action library declares
  \<^verbatim>\<open>insert_event_actions(ev, actions, at_end)\<close>, which puts a list of actions into an
  event that exists already. An empty list is no handler.\<close>

definition event_actions :: "(fsm_ev \<times> action_call list) list \<Rightarrow> fsm_ev \<Rightarrow> action_call list" where
  "event_actions evs ev = (case map_of evs ev of None \<Rightarrow> [] | Some acts \<Rightarrow> acts)"

definition handler :: "script \<Rightarrow> nat \<Rightarrow> fsm_ev \<Rightarrow> action_call list option" where
  "handler sc i ev =
     (case event_actions (global_events sc) ev @ event_actions (st_events (states sc ! i)) ev of
        [] \<Rightarrow> None
      | a # acts \<Rightarrow> Some (a # acts))"

text \<open>Modelled from the spec: \<^verbatim>\<open>run_event\<close> is not in the given sources.
  Dispatch to a mob flagged for deletion, or in a state out of range, does nothing. After
  the list has run and a transition was requested: the old state's name enters the ring of
  previous states, \<open>on_leave\<close> is raised on the old state, the state index is swapped,
  the script timer is reset, and \<open>on_enter\<close> is raised on the new state. Nested dispatch
  is bounded by a depth cap; at the cap the innermost call is dropped.\<close>

definition remember_state :: "fsm_env \<Rightarrow> string \<Rightarrow> string list \<Rightarrow> string list" where
  "remember_state fe nm ring = take (ring_capacity fe) (nm # ring)"

fun fsm_run_event ::
  "nat \<Rightarrow> script \<Rightarrow> fsm_env \<Rightarrow> fsm_ev \<Rightarrow> payload \<Rightarrow> script_mob \<Rightarrow> script_mob" where
  "fsm_run_event 0 sc fe ev pl mb = mb"
| "fsm_run_event (Suc depth) sc fe ev pl mb =
     (if s_to_delete mb then mb
      else if s_state mb \<ge> length (states sc) then mb
      else
        (case handler sc (s_state mb) ev of
           None \<Rightarrow> mb
         | Some acts \<Rightarrow>
             (case exec sc fe pl acts (mb, None) of
                (mb1, None) \<Rightarrow> mb1
              | (mb1, Some new_state) \<Rightarrow>
                  (let mb2 = mb1\<lparr>s_prev_states :=
                               remember_state fe (st_name (states sc ! s_state mb1))
                                 (s_prev_states mb1)\<rparr>;
                       mb3 = fsm_run_event depth sc fe On_leave No_payload mb2;
                       mb4 = mb3\<lparr>s_state := new_state, s_timer := 0\<rparr>
                   in fsm_run_event depth sc fe On_enter No_payload mb4))))"

text \<open>Modelled from the spec: spawning is not in the given sources. The \<^verbatim>\<open>init\<close>
  block of the script runs, then the engine forces the transition to the first state.\<close>

definition spawn :: "nat \<Rightarrow> script \<Rightarrow> fsm_env \<Rightarrow> script_mob \<Rightarrow> script_mob" where
  "spawn depth sc fe mb =
     (let mb1 = fst (exec sc fe No_payload (init_actions sc) (mb, None)) in
        case state_index sc (first_state sc) of
          None \<Rightarrow> mb1
        | Some i \<Rightarrow>
            fsm_run_event depth sc fe On_enter No_payload (mb1\<lparr>s_state := i, s_timer := 0\<rparr>))"

text \<open>The common tail of the handlers \<^verbatim>\<open>on_enter\<close> and \<^verbatim>\<open>on_timer\<close> of
  state \<^verbatim>\<open>pulled\<close>, and the interval it selects.\<close>

definition pulled_timer_actions :: "action_call list" where
  "pulled_timer_actions =
     [A_get_mob_info_self_group_task_power ''p'',
      A_if (Var ''p'') Op_le (Lit (V_num 3)),
      A_set_timer (Lit (V_num 1.5)),
      A_else,
      A_if (Var ''p'') Op_eq (Lit (V_num 4)),
      A_set_timer (Lit (V_num 1.25)),
      A_else,
      A_set_timer (Lit (V_num 1)),
      A_end_if,
      A_end_if]"

definition pull_interval :: "real \<Rightarrow> real" where
  "pull_interval p = (if p \<le> 3 then 1.5 else if p = 4 then 1.25 else 1)"

text \<open>The name of the state a mob is in.\<close>

definition state_name :: "script \<Rightarrow> script_mob \<Rightarrow> string option" where
  "state_name sc mb =
     (if s_state mb < length (states sc) then Some (st_name (states sc ! s_state mb)) else None)"

text \<open>A mob that is about to be spawned, with the given health and group task power.\<close>

definition fresh_mob :: "real \<Rightarrow> real \<Rightarrow> script_mob" where
  "fresh_mob hp pw =
     \<lparr>s_state = 0, s_prev_states = [], s_vars = Map.empty, s_timer = 0, s_health = hp,
      s_max_health = hp, s_group_task_power = pw, s_to_delete = False\<rparr>"

text \<open>A runtime for the examples, and a flukeweed of health 100 that was spawned, had its
  timer fire and then received \<^verbatim>\<open>goal_reached\<close>.\<close>

definition plain_fsm_env :: fsm_env where
  "plain_fsm_env = \<lparr>num_text = (\<lambda>x. []), ring_capacity = 3\<rparr>"

definition pulled_flukeweed :: "real \<Rightarrow> script_mob" where
  "pulled_flukeweed pw =
     fsm_run_event 8 flukeweed plain_fsm_env On_receive_message (Message ''goal_reached'')
       (fsm_run_event 8 flukeweed plain_fsm_env On_timer No_payload
          (spawn 8 flukeweed plain_fsm_env (fresh_mob 100 pw)))"


section \<open>Notions used in the statements\<close>




text \<open>The world right after the \<open>on_touch_object\<close> handler of \<open>m\<close> ran, if it has one.\<close>

definition after_touch_object :: "env \<Rightarrow> nat \<Rightarrow> nat \<Rightarrow> world \<Rightarrow> world" where
  "after_touch_object e m m2 w =
     (case get_event (mobs_all w ! m) MOB_EV_TOUCHED_OBJECT of
        None \<Rightarrow> w | Some ev \<Rightarrow> run_event e ev m m2 w)"

text \<open>The push amount of a whole-body collision before any throttling: the overlap the
  shape test reports, capped for a pusher that pushes softly.\<close>

definition unthrottled_push :: "env \<Rightarrow> mob \<Rightarrow> mob \<Rightarrow> real \<Rightarrow> real" where
  "unthrottled_push e m_ptr m2_ptr d =
     (if pushes_softly (type m2_ptr)
      then min (fst (snd (shape_collision e m_ptr m2_ptr d))) (PUSH_SOFTLY_AMOUNT e * delta_t e)
      else fst (snd (shape_collision e m_ptr m2_ptr d)))"

text \<open>The ids of the mobs in the global list, in order.\<close>

definition ids :: "world \<Rightarrow> nat list" where
  "ids w = map mob_id (mobs_all w)"

text \<open>The script runtime and \<^verbatim>\<open>Mob::tick\<close> never take a mob out of the global
  list or reorder it: a spawned mob is appended, and a mob to be destroyed is only
  flagged.\<close>

definition only_appends :: "env \<Rightarrow> bool" where
  "only_appends e \<longleftrightarrow>
     (\<forall>w ev m info. prefix (ids w) (ids (run e ev m info w))) \<and>
     (\<forall>w m. prefix (ids w) (ids (tick e m w)))"

definition grown :: "world \<Rightarrow> world \<Rightarrow> bool" where
  "grown w w' \<longleftrightarrow> prefix (ids w) (ids w') \<and> tick_log w' = tick_log w"

text \<open>A log entry of one of the two touch events.\<close>

definition is_touch_entry :: "mob_event \<times> nat \<times> nat \<Rightarrow> bool" where
  "is_touch_entry x \<longleftrightarrow>
     snd (fst x) = MOB_EV_TOUCHED_OBJECT \<or> snd (fst x) = MOB_EV_TOUCHED_OPPONENT"

text \<open>The invariants of the hitbox loops: every event pointer held is an event of the kind
  its variable is named after; nothing but events that are not touch events is added to the
  log; and mobs are at most appended, if the script runtime only appends.\<close>

definition tagged :: "hitbox_loop_state \<Rightarrow> bool" where
  "tagged s \<longleftrightarrow>
     (\<forall>ev. hitbox_touch_an_ev s = Some ev \<longrightarrow> snd ev = MOB_EV_HITBOX_TOUCH_A_N) \<and>
     (\<forall>ev. hitbox_touch_na_ev s = Some ev \<longrightarrow> snd ev = MOB_EV_HITBOX_TOUCH_N_A) \<and>
     (\<forall>ev. hitbox_touch_nn_ev s = Some ev \<longrightarrow> snd ev = MOB_EV_HITBOX_TOUCH_N_N) \<and>
     (\<forall>ev. hitbox_touch_eat_ev s = Some ev \<longrightarrow> snd ev = MOB_EV_HITBOX_TOUCH_EAT) \<and>
     (\<forall>ev. hitbox_touch_haz_ev s = Some ev \<longrightarrow> snd ev = MOB_EV_TOUCHED_HAZARD)"

definition quiet :: "env \<Rightarrow> world \<Rightarrow> world \<Rightarrow> bool" where
  "quiet e w w' \<longleftrightarrow>
     (\<exists>new. run_log w' = run_log w @ new \<and> (\<forall>x \<in> set new. \<not> is_touch_entry x)) \<and>
     tick_log w' = tick_log w \<and>
     (only_appends e \<longrightarrow> prefix (ids w) (ids w'))"

definition step_ok :: "env \<Rightarrow> hitbox_loop_state \<Rightarrow> hitbox_loop_state \<Rightarrow> bool" where
  "step_ok e s s' \<longleftrightarrow> (tagged s \<longrightarrow> tagged s' \<and> quiet e (hl_world s) (hl_world s'))"

text \<open>The activity cull as the specification words it: the pair is skipped when neither
  mob is active and neither has been alive for at most the grace period.\<close>

definition spec_activity_cull :: "mob \<Rightarrow> mob \<Rightarrow> bool" where
  "spec_activity_cull m_ptr m2_ptr \<longleftrightarrow>
     (\<not> is_active m_ptr \<and> \<not> is_active m2_ptr) \<and>
     (\<not> time_alive m_ptr \<le> float_0_1 \<and> \<not> time_alive m2_ptr \<le> float_0_1)"

text \<open>The condition for the reduced push as the specification words it: both mobs idle and
  of the same category, whatever that category is.\<close>

definition spec_both_idle_same_category :: "env \<Rightarrow> mob \<Rightarrow> mob \<Rightarrow> bool" where
  "spec_both_idle_same_category e m_ptr m2_ptr \<longleftrightarrow>
     category (type m_ptr) = category (type m2_ptr) \<and>
     (state_id (cur_state m_ptr) = PIKMIN_STATE_IDLING e \<or>
      state_id (cur_state m_ptr) = PIKMIN_STATE_IDLING_H e) \<and>
     (state_id (cur_state m2_ptr) = PIKMIN_STATE_IDLING e \<or>
      state_id (cur_state m2_ptr) = PIKMIN_STATE_IDLING_H e)"


section \<open>Concrete mobs and surroundings used in examples\<close>

definition base_type :: mob_type where
  "base_type =
     \<lparr>category = MOB_CATEGORY_OTHER 0, pushable = True, pushes = True, pushes_softly = False,
      pushes_with_hitboxes = False, inactive_logic = {}, reaches = []\<rparr>"

definition base_state :: mob_state where
  "base_state = \<lparr>state_id = 0, state_events = []\<rparr>"

text \<open>A circular mob of radius 5 at the origin, alive for 10 seconds, active.\<close>

definition base_mob :: mob where
  "base_mob =
     \<lparr>mob_id = 0, type = base_type, kind = Kind_Other, pos = (0, 0), z = 0, height = 0,
      radius = 5, angle = 0, angle_cos = 1, angle_sin = 0, rectangular_dim = (0, 0),
      flags = {}, time_alive = 10, is_active = True, to_delete = False,
      is_stored_inside_mob = False, interaction_span = 5, physical_span = 5, health = 100,
      near_reach = None, has_invisibility_status = False, carry_info = None,
      standing_on_mob = None, push_amount = 0, push_angle = 0, cur_state = base_state,
      sprite = None, parent = None, holder_m = None, holder_hitbox_idx = 0, statuses = [],
      chomping_mobs = [], chomp_max = 0, chomp_body_parts = []\<rparr>"

text \<open>Surroundings for the examples. The examples put all mobs on one horizontal or one
  vertical line, where \<open>dist\<close> below is the Euclidean distance. The distance between two
  mobs, \<open>get_distance_between\<close>, is the distance between their centres less the two
  radii, and 0 if they overlap: the gap between their edges. Scripts do nothing, except that
  a handler of state 1 moves the acting mob to state 2.\<close>

definition base_run :: "mob_event \<Rightarrow> nat \<Rightarrow> event_info \<Rightarrow> world \<Rightarrow> world" where
  "base_run ev m info w =
     (if fst ev = 1
      then w\<lparr>mobs_all := (mobs_all w)
               [m := (mobs_all w ! m)\<lparr>cur_state := \<lparr>state_id = 2, state_events = []\<rparr>\<rparr>]\<rparr>
      else w)"

definition base_env :: env where
  "base_env =
     \<lparr>dist = (\<lambda>p q. \<bar>fst p - fst q\<bar> + \<bar>snd p - snd q\<bar>),
      get_angle = (\<lambda>p q. 0),
      get_angle_smallest_dif = (\<lambda>a b. \<bar>a - b\<bar>),
      get_distance_between = (\<lambda>m_ptr m2_ptr d. max 0 (d - radius m_ptr - radius m2_ptr)),
      rectangles_intersect = (\<lambda>p1 d1 a1 p2 d2 a2. (False, 0, 0)),
      circle_intersects_rectangle = (\<lambda>p r p2 d2 a2. (False, 0, 0)),
      is_mob_in_reach = (\<lambda>r d a. d \<le> reach_radius r \<and> a \<le> reach_angle r / 2),
      task_range = (\<lambda>m_ptr. 20),
      can_hunt = (\<lambda>m_ptr m2_ptr. True),
      can_hurt = (\<lambda>m_ptr m2_ptr. True),
      is_resistant_to_hazards = (\<lambda>m_ptr hs. False),
      get_cur_pos =
        (\<lambda>h p c s. (fst p + (fst (h_pos h) * c - snd (h_pos h) * s),
                   snd p + (fst (h_pos h) * s + snd (h_pos h) * c))),
      run = base_run,
      tick = (\<lambda>m w. w),
      std_sort = sort_key,
      set_order = (\<lambda>cs. cs),
      top_left_corner = (0, 0),
      AREA_CELL_SIZE = 128,
      delta_t = 1 / 30,
      TAU = 6.28,
      PUSH_SOFTLY_AMOUNT = 60,
      PUSH_THROTTLE_TIMEOUT = 1,
      PUSH_THROTTLE_FACTOR = 1,
      idle_bump_range = 50,
      PIKMIN_STATE_IDLING = 7,
      PIKMIN_STATE_IDLING_H = 8,
      LEADER_STATE_ACTIVE = 1\<rparr>"

definition world_of :: "mob list \<Rightarrow> world" where
  "world_of xs =
     \<lparr>mobs_all = xs, cur_leader_ptr = None, area_active_cells = [], run_log = [],
      tick_log = []\<rparr>"

text \<open>A mob whose current state handles both touch events, a mob overlapping it, and the
  same mob made intangible.\<close>

definition feeling_state :: mob_state where
  "feeling_state =
     \<lparr>state_id = 3, state_events = [MOB_EV_TOUCHED_OBJECT, MOB_EV_TOUCHED_OPPONENT]\<rparr>"

definition feeling_mob :: mob where
  "feeling_mob = base_mob\<lparr>cur_state := feeling_state\<rparr>"

definition near_mob :: mob where
  "near_mob = base_mob\<lparr>mob_id := 1, pos := (6, 0)\<rparr>"

definition ghost_mob :: mob where
  "ghost_mob = near_mob\<lparr>flags := {MOB_FLAG_INTANGIBLE}\<rparr>"

definition far_mob :: mob where
  "far_mob = base_mob\<lparr>mob_id := 1, pos := (100, 0)\<rparr>"

text \<open>Mobs in the state whose id is \<open>PIKMIN_STATE_IDLING\<close> of \<open>base_env\<close>: a leader and a
  Pikmin.\<close>

definition idle_state :: mob_state where
  "idle_state = \<lparr>state_id = 7, state_events = []\<rparr>"

definition idle_leader :: mob where
  "idle_leader =
     base_mob\<lparr>type := base_type\<lparr>category := MOB_CATEGORY_LEADERS\<rparr>, cur_state := idle_state\<rparr>"

definition idle_pikmin :: mob where
  "idle_pikmin =
     base_mob\<lparr>type := base_type\<lparr>category := MOB_CATEGORY_PIKMIN\<rparr>, cur_state := idle_state\<rparr>"

text \<open>A mob spawned half a second ago that pushes with one hitbox of radius 5 at its
  centre, and one that pushes with its body.\<close>

definition hitbox_pusher :: mob where
  "hitbox_pusher =
     base_mob\<lparr>mob_id := 1, type := base_type\<lparr>pushes_with_hitboxes := True\<rparr>,
       time_alive := 0.5,
       sprite :=
         Some [\<lparr>h_type = HITBOX_TYPE_NORMAL, h_pos = (0, 0), h_radius = 5, h_z = 0,
                h_height = 0, h_hazards = [], h_body_part_idx = 0\<rparr>]\<rparr>"

definition young_mob :: mob where
  "young_mob = base_mob\<lparr>mob_id := 1, time_alive := 0.5\<rparr>"

text \<open>A mob of radius 5 that notices objects in its reach, with three objects of radii 5, 1
  and 20 whose edges are 10, 9 and 15 away from its edge. Distance less both radii is 0, 3
  and -10 for them: the object farthest away comes first, the nearest one last.\<close>

definition watching_state :: mob_state where
  "watching_state = \<lparr>state_id = 1, state_events = [MOB_EV_OBJECT_IN_REACH]\<rparr>"

definition watching_mob :: mob where
  "watching_mob =
     base_mob\<lparr>type := base_type\<lparr>reaches := [\<lparr>reach_angle = 7, reach_radius = 100\<rparr>]\<rparr>,
       interaction_span := 105, near_reach := Some 0, cur_state := watching_state\<rparr>"

definition object_at :: "nat \<Rightarrow> real \<Rightarrow> real \<Rightarrow> mob" where
  "object_at i x r =
     base_mob\<lparr>mob_id := i, pos := (x, 0), radius := r, interaction_span := r,
       physical_span := r\<rparr>"


definition watching_world :: world where
  "watching_world =
     world_of [watching_mob, object_at 1 20 5, object_at 2 15 1, object_at 3 40 20]"

text \<open>A body inside the only cell of a one-cell grid, its limb far outside the grid, and
  an unrelated mob outside the grid.\<close>

definition body_mob :: mob where
  "body_mob = base_mob\<lparr>pos := (10, 10), is_active := False\<rparr>"

definition limb_mob :: mob where
  "limb_mob = base_mob\<lparr>mob_id := 1, pos := (500, 10), is_active := False, parent := Some 0\<rparr>"

definition stray_mob :: mob where
  "stray_mob = base_mob\<lparr>mob_id := 2, pos := (- 200, 10)\<rparr>"

definition limb_world :: world where
  "limb_world =
     \<lparr>mobs_all = [body_mob, limb_mob, stray_mob],
      cur_leader_ptr = None, area_active_cells = [[True]], run_log = [], tick_log = []\<rparr>"

text \<open>A tick in which mob 0 flags itself for deletion and spawns a mob.\<close>

definition spawned_mob :: mob where
  "spawned_mob = base_mob\<lparr>mob_id := 9, pos := (0, 200)\<rparr>"

definition dying_mob :: mob where
  "dying_mob = base_mob\<lparr>to_delete := True\<rparr>"

definition spawning_tick :: "nat \<Rightarrow> world \<Rightarrow> world" where
  "spawning_tick m w =
     (if m = 0
      then w\<lparr>mobs_all :=
               (mobs_all w)[0 := (mobs_all w ! 0)\<lparr>to_delete := True\<rparr>] @ [spawned_mob]\<rparr>
      else w)"

definition spawning_env :: env where
  "spawning_env = base_env\<lparr>tick := spawning_tick\<rparr>"

definition start_world :: world where
  "start_world = world_of [base_mob, far_mob]"

definition ticked_world :: world where
  "ticked_world =
     \<lparr>mobs_all = [dying_mob, far_mob, spawned_mob], cur_leader_ptr = None,
      area_active_cells = [], run_log = [], tick_log = [0, 1]\<rparr>"


section \<open>Unfolding of the concrete examples\<close>

lemmas example_defs =
  base_mob_def base_type_def base_state_def base_env_def base_run_def world_of_def
  feeling_state_def feeling_mob_def near_mob_def ghost_mob_def

lemmas example_defs2 = example_defs idle_state_def idle_leader_def idle_pikmin_def

lemmas example_defs3 = example_defs2 hitbox_pusher_def young_mob_def

lemmas example_defs4 =
  example_defs3 watching_state_def watching_mob_def object_at_def watching_world_def

lemmas example_defs5 = example_defs4 body_mob_def limb_mob_def stray_mob_def


section \<open>Culling of pairs: activity and broad phase\<close>

lemma verdict_skip_inactive_iff:
  "verdict e w m m2 = Skip_inactive \<longleftrightarrow>
     m \<noteq> m2 \<and> time_alive (mobs_all w ! m) > float_0_1 \<and> \<not> is_active (mobs_all w ! m2) \<and>
     \<not> has_flag (inactive_logic (type (mobs_all w ! m2))) INACTIVE_LOGIC_FLAG_INTERACTIONS"
  by (auto simp: verdict_def Let_def)

lemma interact_pair_skip:
  "verdict e w m m2 \<noteq> Interact \<Longrightarrow> interact_pair e m m2 (w, pend) = Some (w, pend)"
  by (cases "verdict e w m m2") (simp_all add: interact_pair_def)

lemma tick_loop_skip:
  "tick_skipped (mobs_all w ! m) \<Longrightarrow> tick_loop e (m # ms) w = tick_loop e ms w"
  by simp

text \<open>The claim C4 as stated fails: with \<open>m\<close> active and \<open>m2\<close> inactive, both alive
  for ten seconds, the pair is skipped by the activity cull although one of the two is
  active.\<close>

theorem activity_cull_counterexample:
  "\<not> (verdict base_env (world_of [base_mob, base_mob\<lparr>is_active := False\<rparr>]) 0 1 = Skip_inactive
      \<longleftrightarrow> spec_activity_cull base_mob (base_mob\<lparr>is_active := False\<rparr>))"
  by (simp add: verdict_def spec_activity_cull_def float_0_1_def example_defs has_flag_def)

text \<open>
  Claim C4, amended. The activity cull inside \<^verbatim>\<open>process_mob_interactions\<close> skips the
  pair \<open>(m, m2)\<close> exactly when \<open>m \<noteq> m2\<close>, the time the acting mob \<open>m\<close> has been alive
  is above \<^verbatim>\<open>0.1f\<close> (the single-precision number \<open>13421773 / 134217728\<close>), and
  \<open>m2\<close> is inactive with a type that lacks the interactions flag of \<open>inactive_logic\<close>; a
  skipped pair is left without any processing. The loop of \<^verbatim>\<open>do_gameplay_logic\<close> skips
  \<open>m\<close> altogether exactly when the time \<open>m\<close> has been alive is above \<^verbatim>\<open>0.1f\<close> and
  \<open>m\<close> is inactive with a type that lacks the ticks flag. A mob alive for at most
  \<^verbatim>\<open>0.1f\<close>, so in particular one alive for at most a tenth of a second, is never
  culled as the acting mob, whatever the activity flags are.
\<close>

theorem activity_cull_exact:
  "(verdict e w m m2 = Skip_inactive \<longleftrightarrow>
      m \<noteq> m2 \<and> time_alive (mobs_all w ! m) > 13421773 / 134217728 \<and>
      \<not> is_active (mobs_all w ! m2) \<and>
      \<not> has_flag (inactive_logic (type (mobs_all w ! m2))) INACTIVE_LOGIC_FLAG_INTERACTIONS) \<and>
   (verdict e w m m2 = Skip_inactive \<longrightarrow> interact_pair e m m2 (w, pend) = Some (w, pend)) \<and>
   (tick_skipped (mobs_all w ! m) \<longleftrightarrow>
      time_alive (mobs_all w ! m) > 13421773 / 134217728 \<and> \<not> is_active (mobs_all w ! m) \<and>
      \<not> has_flag (inactive_logic (type (mobs_all w ! m))) INACTIVE_LOGIC_FLAG_TICKS) \<and>
   (tick_skipped (mobs_all w ! m) \<longrightarrow> tick_loop e (m # ms) w = tick_loop e ms w) \<and>
   (time_alive (mobs_all w ! m) \<le> 13421773 / 134217728 \<longrightarrow>
      \<not> tick_skipped (mobs_all w ! m) \<and> verdict e w m m2 \<noteq> Skip_inactive) \<and>
   (time_alive (mobs_all w ! m) \<le> 1 / 10 \<longrightarrow>
      \<not> tick_skipped (mobs_all w ! m) \<and> verdict e w m m2 \<noteq> Skip_inactive)"
  using verdict_skip_inactive_iff [of e w m m2] interact_pair_skip [of e w m m2 pend]
  by (auto simp: tick_skipped_def float_0_1_def)

text \<open>Witness for C4: an old acting mob with an inactive partner; an inactive mob alive for
  exactly \<^verbatim>\<open>0.1f\<close>, which is neither skipped by the loop nor culled as the acting mob;
  and an inactive mob spawned 0.05 seconds ago.\<close>

theorem activity_cull_exact_witness:
  "verdict base_env (world_of [base_mob, base_mob\<lparr>is_active := False\<rparr>]) 0 1 = Skip_inactive \<and>
   interact_pair base_env 0 1 (world_of [base_mob, base_mob\<lparr>is_active := False\<rparr>], []) =
     Some (world_of [base_mob, base_mob\<lparr>is_active := False\<rparr>], []) \<and>
   tick_loop base_env [1] (world_of [base_mob, base_mob\<lparr>is_active := False\<rparr>]) =
     Some (world_of [base_mob, base_mob\<lparr>is_active := False\<rparr>]) \<and>
   \<not> tick_skipped (base_mob\<lparr>is_active := False, time_alive := 13421773 / 134217728\<rparr>) \<and>
   verdict base_env
     (world_of [base_mob\<lparr>is_active := False, time_alive := 13421773 / 134217728\<rparr>,
                base_mob\<lparr>is_active := False\<rparr>]) 0 1 \<noteq> Skip_inactive \<and>
   \<not> tick_skipped (base_mob\<lparr>is_active := False, time_alive := 0.05\<rparr>)"
proof -
  let ?w = "world_of [base_mob, base_mob\<lparr>is_active := False\<rparr>]"
  let ?w2 = "world_of [base_mob\<lparr>is_active := False, time_alive := 0.05\<rparr>]"
  let ?w3 = "world_of [base_mob\<lparr>is_active := False, time_alive := 13421773 / 134217728\<rparr>,
                base_mob\<lparr>is_active := False\<rparr>]"
  have h: "(0::nat) \<noteq> 1 \<and> time_alive (mobs_all ?w ! 0) > 13421773 / 134217728 \<and>
     \<not> is_active (mobs_all ?w ! 1) \<and>
     \<not> has_flag (inactive_logic (type (mobs_all ?w ! 1))) INACTIVE_LOGIC_FLAG_INTERACTIONS"
    by (simp add: example_defs has_flag_def)
  have s: "time_alive (mobs_all ?w ! 1) > 13421773 / 134217728 \<and> \<not> is_active (mobs_all ?w ! 1) \<and>
     \<not> has_flag (inactive_logic (type (mobs_all ?w ! 1))) INACTIVE_LOGIC_FLAG_TICKS"
    by (simp add: example_defs has_flag_def)
  have y: "time_alive (mobs_all ?w2 ! 0) \<le> 1 / 10" by (simp add: example_defs)
  have b: "time_alive (mobs_all ?w3 ! 0) \<le> 13421773 / 134217728" by (simp add: example_defs)
  have e: "tick_loop base_env [] ?w = Some ?w" by simp
  show ?thesis
    using h s y b e activity_cull_exact [of base_env ?w 0 1 "[]"]
      activity_cull_exact [of base_env ?w 1 0 "[]" "[]"]
      activity_cull_exact [of base_env ?w2 0 0 "[]"]
      activity_cull_exact [of base_env ?w3 0 1 "[]"]
    by (simp add: world_of_def)
qed

text \<open>The claim C3 as stated fails: two mobs of radius 5 whose interaction spans are 5,
  with their centres 15 apart. The straight-line distance exceeds the sum of the two
  interaction spans, 10, and the broad phase does not reject the pair: the distance between
  the two that it tests is what \<^verbatim>\<open>get_distance_between\<close> returns, here the gap of 5
  between the edges of the two, which does not exceed the interaction span of \<open>m\<close> plus the
  physical span of \<open>m2\<close>.\<close>

theorem broad_phase_centre_distance_counterexample:
  "dist base_env (pos base_mob) (pos (object_at 1 15 5)) >
     interaction_span base_mob + interaction_span (object_at 1 15 5) \<and>
   verdict base_env (world_of [base_mob, object_at 1 15 5]) 0 1 = Interact"
  by (simp add: verdict_def float_0_1_def has_flag_def example_defs object_at_def)

text \<open>
  Claim C3, amended. With \<open>d_between\<close> the distance between the two mobs that
  \<^verbatim>\<open>get_distance_between\<close> returns: whenever \<open>d_between\<close> exceeds the interaction
  span of \<open>m\<close> plus the physical span of \<open>m2\<close>, the pair is not processed, the loop body
  leaving the world and the pending events as they were, with no touch, reach, proximity or
  hitbox processing; the broad phase is what rejects a pair exactly when none of the earlier
  skips applies and \<open>d_between\<close> exceeds that sum; and a pair is processed exactly when none
  of the earlier skips applies and \<open>d_between\<close> does not exceed it.
\<close>

theorem broad_phase_rejects_beyond_spans:
  "d_between = get_distance_between e (mobs_all w ! m) (mobs_all w ! m2)
       (dist e (pos (mobs_all w ! m)) (pos (mobs_all w ! m2))) \<Longrightarrow>
   (d_between > interaction_span (mobs_all w ! m) + physical_span (mobs_all w ! m2) \<longrightarrow>
      verdict e w m m2 \<noteq> Interact \<and> interact_pair e m m2 (w, pend) = Some (w, pend)) \<and>
   (verdict e w m m2 = Skip_too_far \<longleftrightarrow>
      m \<noteq> m2 \<and> verdict e w m m2 \<noteq> Skip_inactive \<and> \<not> to_delete (mobs_all w ! m2) \<and>
      \<not> is_stored_inside_mob (mobs_all w ! m2) \<and>
      d_between > interaction_span (mobs_all w ! m) + physical_span (mobs_all w ! m2)) \<and>
   (verdict e w m m2 = Interact \<longleftrightarrow>
      m \<noteq> m2 \<and> verdict e w m m2 \<noteq> Skip_inactive \<and> \<not> to_delete (mobs_all w ! m2) \<and>
      \<not> is_stored_inside_mob (mobs_all w ! m2) \<and>
      d_between \<le> interaction_span (mobs_all w ! m) + physical_span (mobs_all w ! m2))"
proof -
  assume d: "d_between = get_distance_between e (mobs_all w ! m) (mobs_all w ! m2)
       (dist e (pos (mobs_all w ! m)) (pos (mobs_all w ! m2)))"
  have far: "verdict e w m m2 = Skip_too_far \<longleftrightarrow>
      m \<noteq> m2 \<and> verdict e w m m2 \<noteq> Skip_inactive \<and> \<not> to_delete (mobs_all w ! m2) \<and>
      \<not> is_stored_inside_mob (mobs_all w ! m2) \<and>
      d_between > interaction_span (mobs_all w ! m) + physical_span (mobs_all w ! m2)"
    unfolding d by (auto simp: verdict_def Let_def)
  have near: "verdict e w m m2 = Interact \<longleftrightarrow>
      m \<noteq> m2 \<and> verdict e w m m2 \<noteq> Skip_inactive \<and> \<not> to_delete (mobs_all w ! m2) \<and>
      \<not> is_stored_inside_mob (mobs_all w ! m2) \<and>
      d_between \<le> interaction_span (mobs_all w ! m) + physical_span (mobs_all w ! m2)"
    unfolding d by (auto simp: verdict_def Let_def)
  have rej: "d_between > interaction_span (mobs_all w ! m) + physical_span (mobs_all w ! m2) \<longrightarrow>
      verdict e w m m2 \<noteq> Interact \<and> interact_pair e m m2 (w, pend) = Some (w, pend)"
    using near interact_pair_skip [of e w m m2 pend] by auto
  show ?thesis using far near rej by blast
qed

text \<open>Witness for C3: two mobs with spans 5 whose edges are 90 apart are rejected by the
  broad phase; with the edges 5 apart the pair is processed.\<close>

theorem broad_phase_rejects_beyond_spans_witness:
  "verdict base_env (world_of [base_mob, far_mob]) 0 1 = Skip_too_far \<and>
   interact_pair base_env 0 1 (world_of [base_mob, far_mob], []) =
     Some (world_of [base_mob, far_mob], []) \<and>
   get_distance_between base_env base_mob (object_at 1 15 5)
     (dist base_env (pos base_mob) (pos (object_at 1 15 5))) = 5 \<and>
   verdict base_env (world_of [base_mob, object_at 1 15 5]) 0 1 = Interact"
proof -
  let ?w = "world_of [base_mob, far_mob]"
  let ?v = "world_of [base_mob, object_at 1 15 5]"
  have b: "(90::real) = get_distance_between base_env (mobs_all ?w ! 0) (mobs_all ?w ! 1)
       (dist base_env (pos (mobs_all ?w ! 0)) (pos (mobs_all ?w ! 1)))"
    by (simp add: example_defs far_mob_def)
  have c: "(90::real) > interaction_span (mobs_all ?w ! 0) + physical_span (mobs_all ?w ! 1)"
    "(0::nat) \<noteq> 1" "\<not> to_delete (mobs_all ?w ! 1)" "\<not> is_stored_inside_mob (mobs_all ?w ! 1)"
    "verdict base_env ?w 0 1 \<noteq> Skip_inactive"
    by (simp_all add: verdict_skip_inactive_iff example_defs far_mob_def)
  have b2: "(5::real) = get_distance_between base_env (mobs_all ?v ! 0) (mobs_all ?v ! 1)
       (dist base_env (pos (mobs_all ?v ! 0)) (pos (mobs_all ?v ! 1)))"
    by (simp add: example_defs object_at_def)
  have c2: "(5::real) \<le> interaction_span (mobs_all ?v ! 0) + physical_span (mobs_all ?v ! 1)"
    "\<not> to_delete (mobs_all ?v ! 1)" "\<not> is_stored_inside_mob (mobs_all ?v ! 1)"
    "verdict base_env ?v 0 1 \<noteq> Skip_inactive"
    by (simp_all add: verdict_skip_inactive_iff example_defs object_at_def)
  have g: "get_distance_between base_env base_mob (object_at 1 15 5)
     (dist base_env (pos base_mob) (pos (object_at 1 15 5))) = 5"
    by (simp add: example_defs object_at_def)
  show ?thesis
    using broad_phase_rejects_beyond_spans [OF b, of "[]"] c
      broad_phase_rejects_beyond_spans [OF b2, of "[]"] c2 g
    by simp
qed


section \<open>Touching and pushing\<close>

lemma push_not_ok_intangible:
  "has_flag (flags m2_ptr) MOB_FLAG_INTANGIBLE \<Longrightarrow> \<not> push_applies e m_ptr m2_ptr m m2"
  by (simp add: push_applies_def ok_to_push_def)

lemma quiet_refl [simp]: "quiet e w w"
  by (simp add: quiet_def)

lemma quiet_trans: "quiet e w w1 \<Longrightarrow> quiet e w1 w2 \<Longrightarrow> quiet e w w2"
  unfolding quiet_def
  by (elim conjE exE) (auto intro: prefix_order.trans)

lemma get_event_tag: "get_event m_ptr t = Some ev \<Longrightarrow> snd ev = t"
  by (auto simp: get_event_def split: if_splits)

lemma quiet_run_with:
  "\<not> is_touch_entry (ev, m, m2) \<Longrightarrow> quiet e w (run_with e ev m m2 info w)"
  by (cases ev) (simp add: quiet_def run_with_def only_appends_def ids_def)

lemma step_ok_refl [simp]: "step_ok e s s"
  by (simp add: step_ok_def)

lemma step_ok_trans: "step_ok e s s1 \<Longrightarrow> step_ok e s1 s2 \<Longrightarrow> step_ok e s s2"
  by (auto simp: step_ok_def intro: quiet_trans)

lemma step_ok_report_an: "step_ok e s (report_an e m m2 h1_ptr h2_ptr s)"
  by (auto simp: step_ok_def report_an_def tagged_def Let_def is_touch_entry_def
      dest: get_event_tag intro!: quiet_run_with split: option.splits)

lemma step_ok_report_nn: "step_ok e s (report_nn e m m2 h1_ptr h2_ptr s)"
  by (auto simp: step_ok_def report_nn_def tagged_def Let_def is_touch_entry_def
      dest: get_event_tag intro!: quiet_run_with split: option.splits)

lemma step_ok_report_eat: "step_ok e s (report_eat e m m2 h1_ptr h2_ptr dis s)"
  by (auto simp: step_ok_def report_eat_def tagged_def Let_def is_touch_entry_def
      dest: get_event_tag intro!: quiet_run_with split: option.splits)

lemma quiet_run_hazards:
  "\<not> is_touch_entry (ev, m, m2) \<Longrightarrow> quiet e w (run_hazards e ev m m2 h1_ptr h2_ptr hs w)"
proof (induction hs arbitrary: w)
  case Nil
  show ?case by simp
next
  case (Cons h hs)
  show ?case
    using quiet_trans [OF quiet_run_with [OF Cons.prems] Cons.IH [OF Cons.prems]]
    by simp
qed

lemma step_ok_report_haz: "step_ok e s (report_haz e m m2 h1_ptr h2_ptr dis s)"
  by (auto simp: step_ok_def report_haz_def tagged_def Let_def is_touch_entry_def
      dest: get_event_tag intro!: quiet_run_hazards split: option.splits)

lemma step_ok_report_na: "step_ok e s (report_na e m m2 h1_ptr h2_ptr dis s)"
  by (auto simp: step_ok_def report_na_def tagged_def Let_def is_touch_entry_def
      dest: get_event_tag intro!: quiet_run_with split: option.splits)

lemma step_ok_hitbox_pair: "step_ok e s (hitbox_pair e m m2 h1p h2p s)"
proof -
  obtain h1 h1_ptr h2 h2_ptr where p: "h1p = (h1, h1_ptr)" "h2p = (h2, h2_ptr)"
    by (cases h1p, cases h2p) auto
  let ?s1 = "report_nn e m m2 h1_ptr h2_ptr (report_an e m m2 h1_ptr h2_ptr s)"
  have 1: "step_ok e s ?s1"
    by (rule step_ok_trans [OF step_ok_report_an step_ok_report_nn])
  have 2: "step_ok e ?s1 (report_na e m m2 h1_ptr h2_ptr dis
      (report_haz e m m2 h1_ptr h2_ptr dis (report_eat e m m2 h1_ptr h2_ptr dis ?s1)))" for dis
    by (rule step_ok_trans [OF step_ok_report_eat
          step_ok_trans [OF step_ok_report_haz step_ok_report_na]])
  show ?thesis
    using 1 step_ok_trans [OF 1 2]
    by (simp add: hitbox_pair_def p Let_def)
qed

lemma step_ok_fold:
  "(\<And>x s. step_ok e s (f x s)) \<Longrightarrow> step_ok e s (fold f xs s)"
proof (induction xs arbitrary: s)
  case Nil
  show ?case by simp
next
  case (Cons x xs)
  show ?case
    using step_ok_trans [OF Cons.prems [of s x] Cons.IH [OF Cons.prems, of "f x s"]]
    by simp
qed

lemma step_ok_hitbox_row: "step_ok e s (hitbox_row e m m2 hs2 h1p s)"
  by (simp add: hitbox_row_def step_ok_fold step_ok_hitbox_pair)

lemma quiet_hitboxes: "quiet e w (process_mob_touches_hitboxes e m m2 w)"
proof -
  let ?m = "mobs_all w ! m"
  let ?s = "\<lparr>hl_world = w,
       hitbox_touch_an_ev = get_event ?m MOB_EV_HITBOX_TOUCH_A_N,
       hitbox_touch_na_ev = get_event ?m MOB_EV_HITBOX_TOUCH_N_A,
       hitbox_touch_nn_ev = get_event ?m MOB_EV_HITBOX_TOUCH_N_N,
       hitbox_touch_eat_ev = get_event ?m MOB_EV_HITBOX_TOUCH_EAT,
       hitbox_touch_haz_ev = get_event ?m MOB_EV_TOUCHED_HAZARD,
       reported_an_ev = False, reported_na_ev = False, reported_nn_ev = False,
       reported_eat_ev = False, reported_haz_ev = False\<rparr>"
  have t: "tagged ?s" by (auto simp: tagged_def dest: get_event_tag)
  have "step_ok e ?s (fold (hitbox_row e m m2 hs2) hs ?s)" for hs2 hs
    by (rule step_ok_fold) (rule step_ok_hitbox_row)
  then have "quiet e w (hl_world (fold (hitbox_row e m m2 hs2) hs ?s))" for hs2 hs
    using t unfolding step_ok_def by fastforce
  then show ?thesis
    by (simp add: process_mob_touches_hitboxes_def Let_def split: option.splits)
qed

text \<open>
  Claim C10. If \<open>m2\<close> is intangible, the push section of
  \<^verbatim>\<open>process_mob_touches\<close> leaves the world as it is (no push from \<open>m2\<close> is applied to
  \<open>m\<close>), the touch section leaves it as it is (neither \<open>on_touch_object\<close> nor
  \<open>on_touch_opponent\<close> is run), and what remains of the function, the hitbox section, adds
  only events other than \<open>on_touch_object\<close> and \<open>on_touch_opponent\<close> to the log, whatever
  the shapes and distances are.
\<close>

theorem intangible_no_touch_no_push:
  "has_flag (flags (mobs_all w ! m2)) MOB_FLAG_INTANGIBLE \<Longrightarrow>
   process_mob_touches_push e m m2 d w = Some w \<and>
   process_mob_touches_touch e m m2 d w = w \<and>
   process_mob_touches e m m2 d w = Some (process_mob_touches_hitboxes e m m2 w) \<and>
   (\<exists>new. run_log (process_mob_touches_hitboxes e m m2 w) = run_log w @ new \<and>
      (\<forall>x \<in> set new.
         snd (fst x) \<noteq> MOB_EV_TOUCHED_OBJECT \<and> snd (fst x) \<noteq> MOB_EV_TOUCHED_OPPONENT))"
proof -
  assume i: "has_flag (flags (mobs_all w ! m2)) MOB_FLAG_INTANGIBLE"
  have 1: "process_mob_touches_push e m m2 d w = Some w"
    using i by (simp add: process_mob_touches_push_def push_not_ok_intangible Let_def)
  have 2: "process_mob_touches_touch e m m2 d w = w"
    using i by (simp add: process_mob_touches_touch_def Let_def)
  have 3: "process_mob_touches e m m2 d w = Some (process_mob_touches_hitboxes e m m2 w)"
    by (simp add: process_mob_touches_def 1 2)
  have 4: "\<exists>new. run_log (process_mob_touches_hitboxes e m m2 w) = run_log w @ new \<and>
      (\<forall>x \<in> set new.
         snd (fst x) \<noteq> MOB_EV_TOUCHED_OBJECT \<and> snd (fst x) \<noteq> MOB_EV_TOUCHED_OPPONENT)"
    using quiet_hitboxes [of e w m m2] by (simp add: quiet_def is_touch_entry_def)
  show ?thesis using 1 2 3 4 by blast
qed

text \<open>Witness for C10: an intangible mob overlapping a mob with both touch handlers.\<close>

theorem intangible_no_touch_no_push_witness:
  "fst (shape_collision base_env feeling_mob ghost_mob 6) \<and>
   z_touch feeling_mob ghost_mob \<and>
   process_mob_touches base_env 0 1 6 (world_of [feeling_mob, ghost_mob]) =
     Some (world_of [feeling_mob, ghost_mob])"
proof -
  let ?w = "world_of [feeling_mob, ghost_mob]"
  have h: "has_flag (flags (mobs_all ?w ! 1)) MOB_FLAG_INTANGIBLE"
    by (simp add: example_defs has_flag_def)
  have g: "fst (shape_collision base_env feeling_mob ghost_mob 6) \<and>
           z_touch feeling_mob ghost_mob"
    by (simp add: shape_collision_def z_touch_def example_defs)
  have k: "process_mob_touches_hitboxes base_env 0 1 ?w = ?w"
    by (simp add: process_mob_touches_hitboxes_def get_event_def example_defs)
  show ?thesis using intangible_no_touch_no_push [OF h, of base_env 0 6] g k by simp
qed

text \<open>The claim C2 as stated fails for an intangible \<open>m2\<close>: the two circles overlap,
  the heights match, \<open>m\<close> has a handler for \<open>on_touch_object\<close>, and no event is run.\<close>

theorem touch_skips_intangible_counterexample:
  "fst (shape_collision base_env feeling_mob ghost_mob 6) \<and>
   z_touch feeling_mob ghost_mob \<and>
   get_event feeling_mob MOB_EV_TOUCHED_OBJECT \<noteq> None \<and>
   run_log (process_mob_touches_touch base_env 0 1 6 (world_of [feeling_mob, ghost_mob])) = []"
  by (simp add: shape_collision_def z_touch_def process_mob_touches_touch_def get_event_def
      has_flag_def example_defs)

lemma run_log_run_event [simp]: "run_log (run_event e ev m m2 w) = run_log w @ [(ev, m, m2)]"
  by (simp add: run_event_def run_with_def)

text \<open>
  Claim C2, amended. For a pair \<open>(m, m2)\<close> handed to \<^verbatim>\<open>process_mob_touches\<close> whose
  shapes overlap in XY at overlapping height ranges (a height of 0 matches any height) and
  where \<open>m2\<close> is not intangible, the touch section runs the \<open>on_touch_object\<close> handler of
  \<open>m\<close>'s current state if there is one, and then runs its \<open>on_touch_opponent\<close> handler if
  and only if there is one and \<open>can_hunt(m, m2)\<close> holds at that moment. The section reads
  nothing but the current positions, shapes and flags, so this happens anew on every tick the
  overlap persists.
\<close>

theorem touch_events_when_overlapping:
  "fst (shape_collision e (mobs_all w ! m) (mobs_all w ! m2) d) \<Longrightarrow>
   z_touch (mobs_all w ! m) (mobs_all w ! m2) \<Longrightarrow>
   \<not> has_flag (flags (mobs_all w ! m2)) MOB_FLAG_INTANGIBLE \<Longrightarrow>
   run_log (process_mob_touches_touch e m m2 d w) =
     run_log w @
     (case get_event (mobs_all w ! m) MOB_EV_TOUCHED_OBJECT of
        None \<Rightarrow> [] | Some ev \<Rightarrow> [(ev, m, m2)]) @
     (case get_event (mobs_all w ! m) MOB_EV_TOUCHED_OPPONENT of
        None \<Rightarrow> []
      | Some ev \<Rightarrow>
          if can_hunt e (mobs_all (after_touch_object e m m2 w) ! m)
                        (mobs_all (after_touch_object e m m2 w) ! m2)
          then [(ev, m, m2)] else [])"
  by (simp add: process_mob_touches_touch_def after_touch_object_def Let_def
      split: option.splits)

text \<open>Witness for C2: a tangible mob overlapping a mob with both touch handlers.\<close>

theorem touch_events_when_overlapping_witness:
  "run_log (process_mob_touches_touch base_env 0 1 6 (world_of [feeling_mob, near_mob])) =
     [((3, MOB_EV_TOUCHED_OBJECT), 0, 1), ((3, MOB_EV_TOUCHED_OPPONENT), 0, 1)]"
proof -
  let ?w = "world_of [feeling_mob, near_mob]"
  have a: "fst (shape_collision base_env (mobs_all ?w ! 0) (mobs_all ?w ! 1) 6)"
    by (simp add: shape_collision_def example_defs)
  have b: "z_touch (mobs_all ?w ! 0) (mobs_all ?w ! 1)"
    by (simp add: z_touch_def example_defs)
  have c: "\<not> has_flag (flags (mobs_all ?w ! 1)) MOB_FLAG_INTANGIBLE"
    by (simp add: has_flag_def example_defs)
  show ?thesis using touch_events_when_overlapping [OF a b c]
    by (simp add: get_event_def after_touch_object_def example_defs)
qed

text \<open>The claim C6 as stated fails for a category other than Pikmin: two idle leaders
  at the same place, both pushable, get the full geometric overlap of 10 as push amount, not
  the reduced constant.\<close>

theorem idle_same_category_push_counterexample:
  "spec_both_idle_same_category base_env idle_leader (idle_leader\<lparr>mob_id := 1\<rparr>) \<and>
   push_applies base_env idle_leader (idle_leader\<lparr>mob_id := 1\<rparr>) 0 1 \<and>
   computed_push base_env idle_leader (idle_leader\<lparr>mob_id := 1\<rparr>) 0 1 0 = Some (10, 0)"
  by (simp add: spec_both_idle_same_category_def push_applies_def ok_to_push_def has_flag_def
      both_idle_pikmin_def carried_and_moving_def computed_push_def push_with_shapes_def
      shape_collision_def example_defs2)

text \<open>
  Claim C6, amended. For a pair of mobs that are both of the Pikmin category and both in
  an idling state (\<open>PIKMIN_STATE_IDLING\<close> or \<open>PIKMIN_STATE_IDLING_H\<close>), whose shapes
  collide and where the pusher does not push with hitboxes, the computed push amount is
  exactly 0.1 instead of the overlap amount, and the push angle is the collision's angle
  plus 0.1 when the pushed mob has the higher index and plus nothing otherwise. When the
  push applies, the amount stored in the pushed mob is \<open>0.1 / delta_t\<close>, if that exceeds the
  amount it already has.
\<close>

theorem idle_pikmin_push:
  "both_idle_pikmin e (mobs_all w ! m) (mobs_all w ! m2) \<Longrightarrow>
   \<not> pushes_with_hitboxes (type (mobs_all w ! m2)) \<Longrightarrow>
   fst (shape_collision e (mobs_all w ! m) (mobs_all w ! m2) d) \<Longrightarrow>
   computed_push e (mobs_all w ! m) (mobs_all w ! m2) m m2 d =
     Some (0.1, snd (snd (shape_collision e (mobs_all w ! m) (mobs_all w ! m2) d)) +
                (if m > m2 then 0.1 else 0)) \<and>
   (push_applies e (mobs_all w ! m) (mobs_all w ! m2) m m2 \<longrightarrow>
    process_mob_touches_push e m m2 d w =
      Some (if 0.1 / delta_t e > push_amount (mobs_all w ! m)
            then w\<lparr>mobs_all := (mobs_all w)
                     [m := (mobs_all w ! m)
                        \<lparr>push_amount := 0.1 / delta_t e,
                         push_angle :=
                           snd (snd (shape_collision e (mobs_all w ! m) (mobs_all w ! m2) d)) +
                           (if m > m2 then 0.1 else 0)\<rparr>]\<rparr>
            else w))"
  by (auto simp: computed_push_def push_with_shapes_def process_mob_touches_push_def Let_def
      split: prod.splits)

text \<open>Witness for C6: two idle Pikmin at the same place; only the pair seen from the mob with
  the higher index gets the extra 0.1 on the angle.\<close>

theorem idle_pikmin_push_witness:
  "computed_push base_env idle_pikmin (idle_pikmin\<lparr>mob_id := 1\<rparr>) 0 1 0 = Some (0.1, 0) \<and>
   computed_push base_env (idle_pikmin\<lparr>mob_id := 1\<rparr>) idle_pikmin 1 0 0 = Some (0.1, 0.1) \<and>
   push_amount (mobs_all (the (process_mob_touches_push base_env 1 0 0
       (world_of [idle_pikmin, idle_pikmin\<lparr>mob_id := 1\<rparr>])) ) ! 1) = 3"
proof -
  let ?w = "world_of [idle_pikmin, idle_pikmin\<lparr>mob_id := 1\<rparr>]"
  have a: "both_idle_pikmin base_env (mobs_all ?w ! 0) (mobs_all ?w ! 1)"
          "both_idle_pikmin base_env (mobs_all ?w ! 1) (mobs_all ?w ! 0)"
    by (simp_all add: both_idle_pikmin_def example_defs2)
  have b: "\<not> pushes_with_hitboxes (type (mobs_all ?w ! 1))"
          "\<not> pushes_with_hitboxes (type (mobs_all ?w ! 0))"
    by (simp_all add: example_defs2)
  have c: "fst (shape_collision base_env (mobs_all ?w ! 0) (mobs_all ?w ! 1) 0)"
          "fst (shape_collision base_env (mobs_all ?w ! 1) (mobs_all ?w ! 0) 0)"
    by (simp_all add: shape_collision_def example_defs2)
  have p: "push_applies base_env (mobs_all ?w ! 1) (mobs_all ?w ! 0) 1 0"
    by (simp add: push_applies_def ok_to_push_def has_flag_def both_idle_pikmin_def
        carried_and_moving_def example_defs2)
  show ?thesis
    using idle_pikmin_push [OF a(1) b(1) c(1)] idle_pikmin_push [OF a(2) b(2) c(2)] p
    by (simp add: shape_collision_def example_defs2)
qed

text \<open>The claim C7 as stated fails for a pusher that pushes with hitboxes: spawned half
  a second ago (the throttle factor would be one half), it pushes with the full overlap of
  10, the same amount as a pusher alive for ten seconds.\<close>

theorem hitbox_push_unthrottled_counterexample:
  "time_alive hitbox_pusher < PUSH_THROTTLE_TIMEOUT base_env \<and>
   \<not> both_idle_pikmin base_env base_mob hitbox_pusher \<and>
   push_applies base_env base_mob hitbox_pusher 0 1 \<and>
   min (time_alive base_mob) (time_alive hitbox_pusher) / PUSH_THROTTLE_TIMEOUT base_env *
     PUSH_THROTTLE_FACTOR base_env = 1 / 2 \<and>
   computed_push base_env base_mob hitbox_pusher 0 1 0 = Some (10, 0) \<and>
   computed_push base_env base_mob (hitbox_pusher\<lparr>time_alive := 10\<rparr>) 0 1 0 = Some (10, 0)"
  by (simp add: push_applies_def ok_to_push_def has_flag_def
      both_idle_pikmin_def carried_and_moving_def computed_push_def example_defs3)

text \<open>
  Claim C7, amended. When the push is computed from the whole-body shapes (the pusher does
  not push with hitboxes), the shapes collide, either mob has been alive for less than
  \<open>PUSH_THROTTLE_TIMEOUT\<close> and the two are not both idle Pikmin, the computed push amount
  is the unthrottled amount multiplied by
  \<open>min(time_alive m, time_alive m2) / PUSH_THROTTLE_TIMEOUT * PUSH_THROTTLE_FACTOR\<close>, and the
  angle is the collision's angle.
\<close>

theorem push_throttled_by_min_age:
  "\<not> pushes_with_hitboxes (type m2_ptr) \<Longrightarrow>
   fst (shape_collision e m_ptr m2_ptr d) \<Longrightarrow>
   time_alive m_ptr < PUSH_THROTTLE_TIMEOUT e \<or> time_alive m2_ptr < PUSH_THROTTLE_TIMEOUT e \<Longrightarrow>
   \<not> both_idle_pikmin e m_ptr m2_ptr \<Longrightarrow>
   computed_push e m_ptr m2_ptr m m2 d =
     Some (unthrottled_push e m_ptr m2_ptr d *
             (min (time_alive m_ptr) (time_alive m2_ptr) / PUSH_THROTTLE_TIMEOUT e *
                PUSH_THROTTLE_FACTOR e),
           snd (snd (shape_collision e m_ptr m2_ptr d)))"
  by (auto simp: computed_push_def push_with_shapes_def unthrottled_push_def Let_def
      split: prod.splits)

text \<open>Witness for C7: an overlap of 10 with a pusher spawned half a second ago gives a push of
  5.\<close>

theorem push_throttled_by_min_age_witness:
  "computed_push base_env base_mob young_mob 0 1 0 = Some (5, 0)"
proof -
  have a: "\<not> pushes_with_hitboxes (type young_mob)" by (simp add: example_defs3)
  have b: "fst (shape_collision base_env base_mob young_mob 0)"
    by (simp add: shape_collision_def example_defs3)
  have c: "time_alive base_mob < PUSH_THROTTLE_TIMEOUT base_env \<or>
           time_alive young_mob < PUSH_THROTTLE_TIMEOUT base_env"
    by (simp add: example_defs3)
  have d: "\<not> both_idle_pikmin base_env base_mob young_mob"
    by (simp add: both_idle_pikmin_def example_defs3)
  show ?thesis using push_throttled_by_min_age [OF a b c d, of 0 1]
    by (simp add: unthrottled_push_def shape_collision_def example_defs3)
qed


section \<open>Dispatch of the pending events\<close>

lemma dispatch_changed:
  "cur_state (mobs_all w ! m) \<noteq> sb \<Longrightarrow>
   dispatch_pending e m sb es w = w \<and> dispatched e m sb es w = []"
  by (cases es) simp_all

lemma dispatch_pending_append:
  "dispatch_pending e m sb (xs @ ys) w =
   dispatch_pending e m sb ys (dispatch_pending e m sb xs w)"
proof (induction xs arbitrary: w)
  case Nil
  show ?case by simp
next
  case (Cons p ps)
  show ?case
  proof (cases "cur_state (mobs_all w ! m) \<noteq> sb")
    case True
    then show ?thesis by (simp add: dispatch_changed)
  next
    case False
    then show ?thesis using Cons.IH by (simp split: option.splits)
  qed
qed














section \<open>Activity flags\<close>

lemma parent_raise [simp]:
  "parent (ys[q := (ys ! q)\<lparr>is_active := True\<rparr>] ! j) = parent (ys ! j)"
  by (cases "q < length ys") (auto simp: nth_list_update list_update_beyond)


lemma active_raise_hit:
  "q < length ys \<Longrightarrow> is_active (ys[q := (ys ! q)\<lparr>is_active := True\<rparr>] ! q)"
  by simp

lemma active_raise_other:
  "j \<noteq> q \<Longrightarrow> is_active (ys[q := (ys ! q)\<lparr>is_active := True\<rparr>] ! j) = is_active (ys ! j)"
  by simp

lemma length_activate_parents [simp]: "length (activate_parents cs ys) = length ys"
  by (induction cs arbitrary: ys) (auto split: option.splits)

lemma length_activate_children [simp]: "length (activate_children cs ys) = length ys"
  by (induction cs arbitrary: ys) (auto split: option.splits)

lemma parent_activate_parents [simp]:
  "parent (activate_parents cs ys ! i) = parent (ys ! i)"
proof (induction cs arbitrary: ys)
  case Nil
  show ?case by simp
next
  case (Cons c cs)
  show ?case
    by (auto simp: Cons.IH split: option.splits)
qed

lemma parent_activate_children [simp]:
  "parent (activate_children cs ys ! i) = parent (ys ! i)"
proof (induction cs arbitrary: ys)
  case Nil
  show ?case by simp
next
  case (Cons c cs)
  show ?case
    by (auto simp: Cons.IH split: option.splits)
qed







lemma flags_from_cells_nth:
  "i < length xs \<Longrightarrow>
   flags_from_cells e cells xs ! i = (xs ! i)\<lparr>is_active := cell_flag e cells (xs ! i)\<rparr>"
  by (simp add: flags_from_cells_def)

lemma length_flags_from_cells [simp]: "length (flags_from_cells e cells xs) = length xs"
  by (simp add: flags_from_cells_def)


lemma child_mobs_flags_from_cells [simp]:
  "child_mobs (flags_from_cells e cells xs) = child_mobs xs"
  unfolding child_mobs_def
  by (rule filter_cong) (simp_all add: flags_from_cells_nth)


lemma limb_cell_flags:
  "cell_flag base_env [[True]] body_mob"
  "\<not> cell_flag base_env [[True]] limb_mob"
  "\<not> cell_flag base_env [[True]] stray_mob"
  by (simp_all add: cell_flag_def cell_x_def cell_y_def float_to_int_def example_defs5)

lemma limb_parents:
  "parent body_mob = None" "parent limb_mob = Some 0" "parent stray_mob = None"
  by (simp_all add: example_defs5)

lemma base_env_set_order: "set_order base_env cs = cs"
  by (simp add: base_env_def)

lemma limb_flags:
  "flags_from_cells base_env [[True]] [body_mob, limb_mob, stray_mob] =
     [body_mob\<lparr>is_active := True\<rparr>, limb_mob\<lparr>is_active := False\<rparr>,
      stray_mob\<lparr>is_active := False\<rparr>]"
  by (simp add: flags_from_cells_def limb_cell_flags)

lemma limb_children:
  "child_mobs [body_mob\<lparr>is_active := True\<rparr>, limb_mob\<lparr>is_active := False\<rparr>,
      stray_mob\<lparr>is_active := False\<rparr>] = [1]"
  by (simp add: child_mobs_def limb_parents upt_rec)

lemma limb_world_updated:
  "map is_active (mobs_all (update_mob_is_active_flag base_env limb_world)) = [True, True, False]"
  unfolding update_mob_is_active_flag_def Let_def
  by (simp add: limb_world_def limb_flags limb_children limb_parents base_env_set_order)




section \<open>Deferred deletion and spawning\<close>

lemma grown_refl [simp]: "grown w w"
  by (simp add: grown_def)

lemma grown_trans: "grown w w1 \<Longrightarrow> grown w1 w2 \<Longrightarrow> grown w w2"
  by (auto simp: grown_def)

lemma grown_run_event: "only_appends e \<Longrightarrow> grown w (run_event e ev m m2 w)"
  by (cases ev) (simp add: grown_def only_appends_def run_event_def run_with_def ids_def)

lemma grown_hitboxes:
  "only_appends e \<Longrightarrow> grown w (process_mob_touches_hitboxes e m m2 w)"
  using quiet_hitboxes [of e w m m2] by (simp add: grown_def quiet_def)

lemma map_mob_id_update:
  "map mob_id (xs[m := (xs ! m)\<lparr>push_amount := a, push_angle := b\<rparr>]) = map mob_id xs"
proof (cases "m < length xs")
  case True
  have "map mob_id (xs[m := (xs ! m)\<lparr>push_amount := a, push_angle := b\<rparr>]) =
        (map mob_id xs)[m := map mob_id xs ! m]"
    using True by (simp add: map_update)
  then show ?thesis by simp
next
  case False
  then show ?thesis by (simp add: list_update_beyond)
qed

lemma push_keeps_mobs:
  "process_mob_touches_push e m m2 d w = Some w' \<Longrightarrow> grown w w'"
  by (auto simp: process_mob_touches_push_def grown_def ids_def Let_def map_mob_id_update
      split: if_splits option.splits prod.splits)

lemma touch_keeps_mobs:
  "only_appends e \<Longrightarrow> grown w (process_mob_touches_touch e m m2 d w)"
  by (auto simp: process_mob_touches_touch_def Let_def grown_run_event
      intro: grown_trans [OF grown_run_event grown_run_event]
      split: option.splits)

lemma touches_keep_mobs:
  "only_appends e \<Longrightarrow> process_mob_touches e m m2 d w = Some w' \<Longrightarrow> grown w w'"
  by (auto simp: process_mob_touches_def split: option.splits
      intro: grown_trans [OF push_keeps_mobs grown_trans [OF touch_keeps_mobs grown_hitboxes]])

lemma interact_pair_keeps_mobs:
  "only_appends e \<Longrightarrow> interact_pair e m m2 (w, pend) = Some (w', pend') \<Longrightarrow> grown w w'"
  by (cases "verdict e w m m2")
     (auto simp: interact_pair_def Let_def touches_keep_mobs split: option.splits if_splits)

lemma pair_loop_keeps_mobs:
  "only_appends e \<Longrightarrow> pair_loop e m ms (w, pend) = Some (w', pend') \<Longrightarrow> grown w w'"
proof (induction ms arbitrary: w pend)
  case Nil
  then show ?case by simp
next
  case (Cons m2 ms)
  from Cons.prems(2) obtain w1 pend1 where
    1: "interact_pair e m m2 (w, pend) = Some (w1, pend1)" and
    2: "pair_loop e m ms (w1, pend1) = Some (w', pend')"
    by (auto split: option.splits)
  from 1 have "grown w w1" using Cons.prems(1) by (rule interact_pair_keeps_mobs [rotated])
  moreover from 2 have "grown w1 w'" using Cons.prems(1) Cons.IH by blast
  ultimately show ?case by (rule grown_trans)
qed

lemma dispatch_keeps_mobs:
  "only_appends e \<Longrightarrow> grown w (dispatch_pending e m sb es w)"
proof (induction es arbitrary: w)
  case Nil
  show ?case by simp
next
  case (Cons p ps)
  show ?case
    using Cons.prems Cons.IH
    by (auto split: option.splits intro: grown_trans [OF grown_run_event])
qed

lemma interactions_keep_mobs:
  "only_appends e \<Longrightarrow> process_mob_interactions e m w = Some w' \<Longrightarrow> grown w w'"
  by (auto simp: process_mob_interactions_def Let_def split: option.splits
      intro: grown_trans [OF pair_loop_keeps_mobs dispatch_keeps_mobs])

lemma tick_mob_keeps_mobs:
  "only_appends e \<Longrightarrow>
   prefix (ids w) (ids (tick_mob e m w)) \<and> tick_log (tick_mob e m w) = tick_log w @ [m]"
  by (simp add: only_appends_def tick_mob_def ids_def)

lemma tick_loop_keeps_mobs:
  "only_appends e \<Longrightarrow> tick_loop e ms w = Some w' \<Longrightarrow>
   prefix (ids w) (ids w') \<and> (\<exists>ts. tick_log w' = tick_log w @ ts \<and> subseq ts ms)"
proof (induction ms arbitrary: w)
  case Nil
  then show ?case by simp
next
  case (Cons m ms)
  show ?case
  proof (cases "tick_skipped (mobs_all w ! m)")
    case True
    then have "tick_loop e ms w = Some w'" using Cons.prems by simp
    then have "prefix (ids w) (ids w') \<and> (\<exists>ts. tick_log w' = tick_log w @ ts \<and> subseq ts ms)"
      using Cons.IH Cons.prems(1) by blast
    then show ?thesis by auto
  next
    case False
    define w1 where "w1 = tick_mob e m w"
    have t: "prefix (ids w) (ids w1)" "tick_log w1 = tick_log w @ [m]"
      using tick_mob_keeps_mobs [OF Cons.prems(1), of w m] by (simp_all add: w1_def)
    obtain w2 where w2: "grown w1 w2" "tick_loop e ms w2 = Some w'"
    proof (cases "is_stored_inside_mob (mobs_all w1 ! m)")
      case True
      then have "tick_loop e ms w1 = Some w'"
        using Cons.prems(2) False by (simp add: w1_def Let_def)
      then show ?thesis using that [of w1] by simp
    next
      case notstored: False
      then obtain w2 where a: "process_mob_interactions e m w1 = Some w2"
        and b: "tick_loop e ms w2 = Some w'"
        using Cons.prems(2) False by (auto simp: w1_def Let_def split: option.splits)
      from a have "grown w1 w2" using Cons.prems(1) interactions_keep_mobs by blast
      then show ?thesis using that b by blast
    qed
    from w2(2) obtain ts where ts: "prefix (ids w2) (ids w')" "tick_log w' = tick_log w2 @ ts"
      "subseq ts ms"
      using Cons.IH Cons.prems(1) by blast
    have "prefix (ids w) (ids w')"
      using t(1) w2(1) ts(1) by (auto simp: grown_def)
    moreover have "tick_log w' = tick_log w @ (m # ts)"
      using t(2) w2(1) ts(2) by (simp add: grown_def)
    moreover have "subseq (m # ts) (m # ms)" using ts(3) by simp
    ultimately show ?thesis by blast
  qed
qed

lemma sweep_result:
  "m \<le> n_mobs \<Longrightarrow> n_mobs \<le> length xs \<Longrightarrow>
   sweep n_mobs m xs =
     take m xs @ filter (\<lambda>x. \<not> to_delete x) (drop m (take n_mobs xs)) @ drop n_mobs xs"
proof (induction n_mobs m xs rule: sweep.induct)
  case (1 n_mobs m xs)
  show ?case
  proof (cases "m < n_mobs")
    case False
    then have "m = n_mobs" using "1.prems" by simp
    then show ?thesis by (simp add: sweep.simps [of n_mobs n_mobs])
  next
    case True
    then have mlen: "m < length xs" using "1.prems" by simp
    have "take n_mobs xs ! m # drop (Suc m) (take n_mobs xs) = drop m (take n_mobs xs)"
      using True mlen by (intro Cons_nth_drop_Suc) simp
    then have split: "drop m (take n_mobs xs) = xs ! m # drop (Suc m) (take n_mobs xs)"
      using True by simp
    show ?thesis
    proof (cases "to_delete (xs ! m)")
      case del: True
      let ?ys = "delete_mob m xs"
      have len: "length ?ys = length xs - 1"
        using mlen by (simp add: delete_mob_def)
      have ih: "sweep (n_mobs - 1) m ?ys =
          take m ?ys @ filter (\<lambda>x. \<not> to_delete x) (drop m (take (n_mobs - 1) ?ys)) @
          drop (n_mobs - 1) ?ys"
        using "1.IH"(1) [OF True del] True "1.prems" len by simp
      have a: "take m ?ys = take m xs" using mlen by (simp add: delete_mob_def)
      have b: "drop m (take (n_mobs - 1) ?ys) = drop (Suc m) (take n_mobs xs)"
        using True mlen by (simp add: delete_mob_def drop_take min_def)
      have c: "drop (n_mobs - 1) ?ys = drop n_mobs xs"
        using True mlen by (simp add: delete_mob_def)
      have "sweep n_mobs m xs = sweep (n_mobs - 1) m ?ys"
        using True del by (simp add: sweep.simps [of n_mobs m xs])
      then show ?thesis using ih a b c split del by simp
    next
      case keep: False
      have ih: "sweep n_mobs (Suc m) xs =
          take (Suc m) xs @ filter (\<lambda>x. \<not> to_delete x) (drop (Suc m) (take n_mobs xs)) @
          drop n_mobs xs"
        using "1.IH"(2) [OF True keep] True "1.prems" by simp
      have "sweep n_mobs m xs = sweep n_mobs (Suc m) xs"
        using True keep by (simp add: sweep.simps [of n_mobs m xs])
      then show ?thesis using ih split keep mlen by (simp add: take_Suc_conv_app_nth)
    qed
  qed
qed

declare sweep.simps [simp del]

text \<open>
  Claim C9. Provided the script runtime, \<^verbatim>\<open>Mob::tick\<close> and the hitbox section never
  take a mob out of the global list themselves, one run of the mob part of
  \<^verbatim>\<open>do_gameplay_logic\<close> that ticks without crashing keeps every mob that was in the
  list at the start at its index until the tick loop is over, flagged for deletion or not;
  ticks only indices below the length the list had at the start, each at most once and in
  ascending order, so no mob appended during the tick is ticked; and then removes, in the
  sweep, exactly the flagged mobs among those that were in the list at the start, leaving
  the appended mobs in place.
\<close>

theorem deletion_deferred_spawn_unticked:
  "only_appends e \<Longrightarrow> n_mobs = length (mobs_all w) \<Longrightarrow>
   tick_loop e [0..<n_mobs] w = Some w1 \<Longrightarrow>
   do_gameplay_logic_mobs e w = Some (w1\<lparr>mobs_all := sweep n_mobs 0 (mobs_all w1)\<rparr>) \<and>
   prefix (map mob_id (mobs_all w)) (map mob_id (mobs_all w1)) \<and>
   (\<exists>ts. tick_log w1 = tick_log w @ ts \<and> subseq ts [0..<n_mobs]) \<and>
   sweep n_mobs 0 (mobs_all w1) =
     filter (\<lambda>x. \<not> to_delete x) (take n_mobs (mobs_all w1)) @ drop n_mobs (mobs_all w1)"
proof -
  assume oa: "only_appends e" and n: "n_mobs = length (mobs_all w)"
    and tl: "tick_loop e [0..<n_mobs] w = Some w1"
  have 1: "do_gameplay_logic_mobs e w = Some (w1\<lparr>mobs_all := sweep n_mobs 0 (mobs_all w1)\<rparr>)"
    using n tl by (simp add: do_gameplay_logic_mobs_def Let_def)
  from tick_loop_keeps_mobs [OF oa tl]
  have 2: "prefix (ids w) (ids w1)"
    and 3: "\<exists>ts. tick_log w1 = tick_log w @ ts \<and> subseq ts [0..<n_mobs]"
    by blast+
  from 2 have "length (ids w) \<le> length (ids w1)" by (rule prefix_length_le)
  then have "n_mobs \<le> length (mobs_all w1)" using n by (simp add: ids_def)
  then have 4: "sweep n_mobs 0 (mobs_all w1) =
     filter (\<lambda>x. \<not> to_delete x) (take n_mobs (mobs_all w1)) @ drop n_mobs (mobs_all w1)"
    using sweep_result [of 0 n_mobs "mobs_all w1"] by simp
  show ?thesis using 1 2 3 4 by (simp add: ids_def)
qed

lemma map_mob_id_update_state:
  "map mob_id (xs[m := (xs ! m)\<lparr>cur_state := s\<rparr>]) = map mob_id xs"
proof (cases "m < length xs")
  case True
  have "map mob_id (xs[m := (xs ! m)\<lparr>cur_state := s\<rparr>]) = (map mob_id xs)[m := map mob_id xs ! m]"
    using True by (simp add: map_update)
  then show ?thesis by simp
next
  case False
  then show ?thesis by (simp add: list_update_beyond)
qed

lemma map_mob_id_update_delete:
  "map mob_id (xs[m := (xs ! m)\<lparr>to_delete := b\<rparr>]) = map mob_id xs"
proof (cases "m < length xs")
  case True
  have "map mob_id (xs[m := (xs ! m)\<lparr>to_delete := b\<rparr>]) = (map mob_id xs)[m := map mob_id xs ! m]"
    using True by (simp add: map_update)
  then show ?thesis by simp
next
  case False
  then show ?thesis by (simp add: list_update_beyond)
qed

lemma spawning_env_only_appends: "only_appends spawning_env"
  by (simp add: only_appends_def spawning_env_def base_env_def base_run_def spawning_tick_def
      ids_def map_mob_id_update_state map_mob_id_update_delete)

lemma quiet_mobs:
  "get_event dying_mob t = None" "get_event far_mob t = None" "get_event spawned_mob t = None"
  by (simp_all add: get_event_def dying_mob_def far_mob_def spawned_mob_def base_mob_def
      base_state_def)

lemma spawning_verdicts:
  "verdict spawning_env \<lparr>mobs_all = [dying_mob, far_mob, spawned_mob], cur_leader_ptr = None,
      area_active_cells = [], run_log = [], tick_log = lg\<rparr> m m2 \<noteq> Interact"
  if "m < 3" "m2 < 3" "m = 0 \<or> m = 1" for m m2 lg
  using that
  by (auto simp: verdict_def Let_def has_flag_def spawning_env_def base_env_def dying_mob_def
      far_mob_def spawned_mob_def base_mob_def base_type_def less_Suc_eq numeral_3_eq_3)

lemma spawning_interactions:
  "m = 0 \<or> m = 1 \<Longrightarrow>
   process_mob_interactions spawning_env m
     \<lparr>mobs_all = [dying_mob, far_mob, spawned_mob], cur_leader_ptr = None,
      area_active_cells = [], run_log = [], tick_log = lg\<rparr> =
   Some \<lparr>mobs_all = [dying_mob, far_mob, spawned_mob], cur_leader_ptr = None,
      area_active_cells = [], run_log = [], tick_log = lg\<rparr>"
proof -
  assume m: "m = 0 \<or> m = 1"
  let ?w = "\<lparr>mobs_all = [dying_mob, far_mob, spawned_mob], cur_leader_ptr = None,
      area_active_cells = [], run_log = [], tick_log = lg\<rparr>"
  have v: "interact_pair spawning_env m m2 (?w, []) = Some (?w, [])" if "m2 < 3" for m2
    using spawning_verdicts [of m m2 lg] that m by (intro interact_pair_skip) auto
  have "pair_loop spawning_env m [0, 1, 2] (?w, []) = Some (?w, [])"
    using v [of 0] v [of 1] v [of 2] by simp
  moreover have "[0..<length (mobs_all ?w)] = [0, 1, 2]"
    by (simp add: upt_rec)
  ultimately have pl: "pair_loop spawning_env m [0..<length (mobs_all ?w)] (?w, []) = Some (?w, [])"
    by (simp only:)
  have ss: "std_sort spawning_env k [] = []" for k
    by (simp add: spawning_env_def base_env_def)
  show ?thesis
    unfolding process_mob_interactions_def Let_def pl by (simp add: ss)
qed

lemma spawning_tick_loop:
  "tick_loop spawning_env [0..<length (mobs_all start_world)] start_world = Some ticked_world"
proof -
  let ?w0 = "\<lparr>mobs_all = [dying_mob, far_mob, spawned_mob], cur_leader_ptr = None,
      area_active_cells = [], run_log = [], tick_log = [0]\<rparr>"
  have r: "[0..<length (mobs_all start_world)] = [0, 1]"
    by (simp add: start_world_def world_of_def upt_rec)
  have a: "\<not> tick_skipped (mobs_all start_world ! 0)"
    by (simp add: tick_skipped_def start_world_def world_of_def base_mob_def)
  have b: "tick_mob spawning_env 0 start_world = ?w0"
    by (simp add: tick_mob_def spawning_env_def spawning_tick_def start_world_def world_of_def
        dying_mob_def)
  have c: "\<not> is_stored_inside_mob (mobs_all ?w0 ! 0)" "\<not> is_stored_inside_mob (mobs_all ?w0 ! 1)"
    by (simp_all add: dying_mob_def far_mob_def base_mob_def)
  have d: "\<not> tick_skipped (mobs_all ?w0 ! 1)"
    by (simp add: tick_skipped_def far_mob_def base_mob_def)
  have e: "tick_mob spawning_env 1 ?w0 = ticked_world"
    by (simp add: tick_mob_def spawning_env_def spawning_tick_def ticked_world_def)
  have f: "process_mob_interactions spawning_env 0 ?w0 = Some ?w0"
    by (rule spawning_interactions) simp
  have g: "process_mob_interactions spawning_env 1 ticked_world = Some ticked_world"
    unfolding ticked_world_def by (rule spawning_interactions) simp
  have h: "\<not> is_stored_inside_mob (mobs_all ticked_world ! 1)"
    by (simp add: ticked_world_def far_mob_def base_mob_def)
  have "tick_loop spawning_env [1] ?w0 = Some ticked_world"
    using d e g h by (simp add: Let_def)
  then have "tick_loop spawning_env [0, 1] start_world = Some ticked_world"
    using a b c(1) f by (simp add: Let_def)
  then show ?thesis using r by simp
qed

text \<open>Witness for C9: mob 0 flags itself and spawns mob 9 while ticking; mobs 0 and 1 are
  ticked, mob 9 is not, and the sweep removes mob 0 only.\<close>

theorem deletion_deferred_spawn_unticked_witness:
  "map mob_id (mobs_all start_world) = [0, 1] \<and>
   map mob_id (mobs_all ticked_world) = [0, 1, 9] \<and>
   map to_delete (mobs_all ticked_world) = [True, False, False] \<and>
   do_gameplay_logic_mobs spawning_env start_world =
     Some (ticked_world\<lparr>mobs_all := [far_mob, spawned_mob]\<rparr>) \<and>
   tick_log ticked_world = [0, 1]"
proof -
  have ids: "map mob_id (mobs_all start_world) = [0, 1] \<and>
     map mob_id (mobs_all ticked_world) = [0, 1, 9] \<and>
     map to_delete (mobs_all ticked_world) = [True, False, False] \<and>
     tick_log ticked_world = [0, 1]"
    by (simp add: start_world_def world_of_def ticked_world_def dying_mob_def far_mob_def
        spawned_mob_def base_mob_def)
  have sw: "filter (\<lambda>x. \<not> to_delete x) (take (length (mobs_all start_world)) (mobs_all ticked_world)) @
        drop (length (mobs_all start_world)) (mobs_all ticked_world) = [far_mob, spawned_mob]"
    by (simp add: start_world_def world_of_def ticked_world_def dying_mob_def far_mob_def
        base_mob_def)
  from deletion_deferred_spawn_unticked [OF spawning_env_only_appends refl spawning_tick_loop] sw ids
  show ?thesis by simp
qed


section \<open>The flukeweed script on the runtime of the specification\<close>

lemma flukeweed_states:
  "length (states flukeweed) = 4"
  "st_name (states flukeweed ! 0) = ''capturing''"
  "st_name (states flukeweed ! Suc 0) = ''idling''"
  "st_name (states flukeweed ! 2) = ''pulled''"
  "st_name (states flukeweed ! 3) = ''dying''"
  by (simp_all add: flukeweed_def numeral_3_eq_3)

lemma flukeweed_state_index:
  "state_index flukeweed ''capturing'' = Some 0"
  "state_index flukeweed ''idling'' = Some (Suc 0)"
  "state_index flukeweed ''pulled'' = Some 2"
  by (simp_all add: state_index_def flukeweed_def upt_rec)

lemma flukeweed_first_state: "first_state flukeweed = ''capturing''"
  by (simp add: flukeweed_def)

lemma flukeweed_init: "init_actions flukeweed = [A_set_var ''capturing'' (Lit (V_str ''true''))]"
  by (simp add: flukeweed_def)

lemma flukeweed_handlers:
  "handler flukeweed 0 On_enter = Some [A_set_timer (Lit (V_num 0.1))]"
  "handler flukeweed 0 On_leave = None"
  "handler flukeweed 0 On_timer =
     Some [A_set_var ''capturing'' (Lit (V_str ''false'')), A_set_state ''idling'']"
  "handler flukeweed (Suc 0) On_enter =
     Some [A_other ''set_animation'' [''idling'', ''random_time_on_spawn'']]"
  "handler flukeweed (Suc 0) On_leave = None"
  "handler flukeweed (Suc 0) On_receive_message =
     Some [A_get_event_info_message ''msg'',
           A_if (Var ''msg'') Op_eq (Lit (V_str ''goal_reached'')), A_set_state ''pulled'',
           A_end_if]"
  "handler flukeweed 2 On_enter = Some (A_other ''set_animation'' [''pulled''] # pulled_timer_actions)"
  "handler flukeweed 2 On_timer = Some (A_add_health (Lit (V_num (- 20))) # pulled_timer_actions)"
  by (simp_all add: handler_def event_actions_def flukeweed_def pulled_timer_actions_def)

lemma exec_pulled_timer_actions:
  "exec flukeweed fe pl pulled_timer_actions (mb, req) =
     (mb\<lparr>s_vars := (s_vars mb)(''p'' \<mapsto> V_num (s_group_task_power mb)),
         s_timer := pull_interval (s_group_task_power mb)\<rparr>, req)"
  by (simp add: pulled_timer_actions_def pull_interval_def lookup_var_def)

lemma flukeweed_spawn:
  "\<not> s_to_delete mb \<Longrightarrow>
   spawn (Suc d) flukeweed fe mb =
     mb\<lparr>s_vars := (s_vars mb)(''capturing'' \<mapsto> V_str ''true''), s_state := 0, s_timer := 0.1\<rparr>"
  by (simp add: spawn_def flukeweed_init flukeweed_first_state flukeweed_state_index
      flukeweed_states flukeweed_handlers)

lemma flukeweed_capture_timer:
  "s_state mb = 0 \<Longrightarrow> \<not> s_to_delete mb \<Longrightarrow>
   fsm_run_event (Suc (Suc d)) flukeweed fe On_timer pl mb =
     mb\<lparr>s_vars := (s_vars mb)(''capturing'' \<mapsto> V_str ''false''),
        s_prev_states := remember_state fe ''capturing'' (s_prev_states mb),
        s_state := Suc 0, s_timer := 0\<rparr>"
  by (simp add: flukeweed_state_index flukeweed_states flukeweed_handlers)

lemma flukeweed_idling_message:
  "s_state mb = Suc 0 \<Longrightarrow> \<not> s_to_delete mb \<Longrightarrow>
   fsm_run_event (Suc (Suc d)) flukeweed fe On_receive_message (Message s) mb =
     (if s = ''goal_reached''
      then mb\<lparr>s_prev_states := remember_state fe ''idling'' (s_prev_states mb),
              s_state := 2,
              s_vars := (s_vars mb)(''msg'' \<mapsto> V_str s,
                                   ''p'' \<mapsto> V_num (s_group_task_power mb)),
              s_timer := pull_interval (s_group_task_power mb)\<rparr>
      else mb\<lparr>s_vars := (s_vars mb)(''msg'' \<mapsto> V_str s)\<rparr>)"
  by (simp add: flukeweed_state_index flukeweed_states flukeweed_handlers
      exec_pulled_timer_actions lookup_var_def)

lemma flukeweed_pulled_timer:
  "s_state mb = 2 \<Longrightarrow> \<not> s_to_delete mb \<Longrightarrow>
   fsm_run_event (Suc d) flukeweed fe On_timer pl mb =
     mb\<lparr>s_health := max 0 (min (s_max_health mb) (s_health mb - 20)),
        s_vars := (s_vars mb)(''p'' \<mapsto> V_num (s_group_task_power mb)),
        s_timer := pull_interval (s_group_task_power mb)\<rparr>"
  by (simp add: flukeweed_states flukeweed_handlers exec_pulled_timer_actions clamp_health_def)

lemma flukeweed_pulled_index:
  assumes "state_name flukeweed mb = Some ''pulled''"
  shows "s_state mb = 2"
proof -
  from assms have l: "s_state mb < 4"
    and n: "st_name (states flukeweed ! s_state mb) = ''pulled''"
    by (simp_all add: state_name_def flukeweed_states split: if_splits)
  from l have "s_state mb = 0 \<or> s_state mb = Suc 0 \<or> s_state mb = 2 \<or> s_state mb = 3"
    by arith
  with n show ?thesis by (auto simp: flukeweed_states)
qed

text \<open>
  Claim C5, on the runtime written from the specification. A freshly spawned flukeweed is
  in state \<^verbatim>\<open>capturing\<close> with a timer of 0.1 seconds and \<open>capturing\<close> set to true;
  when the timer fires it is in \<^verbatim>\<open>idling\<close> with \<open>capturing\<close> set to false; the
  message \<^verbatim>\<open>goal_reached\<close> received then puts it in \<^verbatim>\<open>pulled\<close>, its health
  untouched and its timer armed, while any other message leaves it in \<^verbatim>\<open>idling\<close>.
  For every mob in \<^verbatim>\<open>pulled\<close>, the handler of the timer leaves it in
  \<^verbatim>\<open>pulled\<close> (the script has no transition there; what the engine does with a mob
  whose health is 0 comes after the handler), adds -20 to its health within the bounds 0 and
  \<open>max_health\<close> (so takes exactly 20 off a health that is within the bounds and at least
  20), and arms the timer again. The timer is armed
  to 1.5 seconds for a group task power of at most 3, to 1.25 seconds for a power of 4, and
  to 1 second otherwise, so for a power of 5 or more.
\<close>

theorem flukeweed_lifecycle:
  "(let mb1 = spawn (Suc (Suc d)) flukeweed fe (fresh_mob hp pw);
        mb2 = fsm_run_event (Suc (Suc d)) flukeweed fe On_timer No_payload mb1;
        mb3 = fsm_run_event (Suc (Suc d)) flukeweed fe On_receive_message
                (Message ''goal_reached'') mb2
    in
      state_name flukeweed mb1 = Some ''capturing'' \<and> s_timer mb1 = 0.1 \<and>
      s_vars mb1 ''capturing'' = Some (V_str ''true'') \<and>
      state_name flukeweed mb2 = Some ''idling'' \<and>
      s_vars mb2 ''capturing'' = Some (V_str ''false'') \<and>
      (msg \<noteq> ''goal_reached'' \<longrightarrow>
         state_name flukeweed
           (fsm_run_event (Suc (Suc d)) flukeweed fe On_receive_message (Message msg) mb2) =
         Some ''idling'') \<and>
      state_name flukeweed mb3 = Some ''pulled'' \<and>
      s_timer mb3 = (if pw \<le> 3 then 1.5 else if pw = 4 then 1.25 else 1) \<and>
      s_health mb3 = hp \<and> s_max_health mb3 = hp \<and> s_group_task_power mb3 = pw \<and>
      \<not> s_to_delete mb3) \<and>
   (state_name flukeweed mb = Some ''pulled'' \<and> \<not> s_to_delete mb \<longrightarrow>
      (let mb' = fsm_run_event (Suc d) flukeweed fe On_timer No_payload mb in
         state_name flukeweed mb' = Some ''pulled'' \<and>
         s_health mb' = max 0 (min (s_max_health mb) (s_health mb - 20)) \<and>
         (20 \<le> s_health mb \<and> s_health mb \<le> s_max_health mb \<longrightarrow>
            s_health mb' = s_health mb - 20) \<and>
         s_timer mb' =
           (if s_group_task_power mb \<le> 3 then 1.5
            else if s_group_task_power mb = 4 then 1.25 else 1) \<and>
         s_max_health mb' = s_max_health mb \<and>
         s_group_task_power mb' = s_group_task_power mb \<and> \<not> s_to_delete mb'))"
proof -
  let ?mb0 = "fresh_mob hp pw"
  let ?mb1 = "?mb0\<lparr>s_vars := (s_vars ?mb0)(''capturing'' \<mapsto> V_str ''true''), s_state := 0,
                   s_timer := 0.1\<rparr>"
  let ?mb2 = "?mb1\<lparr>s_vars := (s_vars ?mb1)(''capturing'' \<mapsto> V_str ''false''),
        s_prev_states := remember_state fe ''capturing'' (s_prev_states ?mb1),
        s_state := Suc 0, s_timer := 0\<rparr>"
  let ?mb3 = "?mb2\<lparr>s_prev_states := remember_state fe ''idling'' (s_prev_states ?mb2),
        s_state := 2,
        s_vars := (s_vars ?mb2)(''msg'' \<mapsto> V_str ''goal_reached'',
                                ''p'' \<mapsto> V_num (s_group_task_power ?mb2)),
        s_timer := pull_interval (s_group_task_power ?mb2)\<rparr>"
  have f: "\<not> s_to_delete ?mb0" "s_health ?mb0 = hp" "s_max_health ?mb0 = hp"
    "s_group_task_power ?mb0 = pw"
    by (simp_all add: fresh_mob_def)
  have 1: "spawn (Suc (Suc d)) flukeweed fe ?mb0 = ?mb1"
    using flukeweed_spawn [of ?mb0 "Suc d" fe] f by simp
  have 2: "fsm_run_event (Suc (Suc d)) flukeweed fe On_timer No_payload ?mb1 = ?mb2"
    using flukeweed_capture_timer [of ?mb1 d fe No_payload] f by simp
  have 3: "fsm_run_event (Suc (Suc d)) flukeweed fe On_receive_message
             (Message ''goal_reached'') ?mb2 = ?mb3"
    using flukeweed_idling_message [of ?mb2 d fe "''goal_reached''"] f by simp
  have 4: "msg \<noteq> ''goal_reached'' \<Longrightarrow>
      fsm_run_event (Suc (Suc d)) flukeweed fe On_receive_message (Message msg) ?mb2 =
      ?mb2\<lparr>s_vars := (s_vars ?mb2)(''msg'' \<mapsto> V_str msg)\<rparr>"
    using flukeweed_idling_message [of ?mb2 d fe msg] f by simp
  have first: "state_name flukeweed ?mb1 = Some ''capturing'' \<and> s_timer ?mb1 = 0.1 \<and>
      s_vars ?mb1 ''capturing'' = Some (V_str ''true'') \<and>
      state_name flukeweed ?mb2 = Some ''idling'' \<and>
      s_vars ?mb2 ''capturing'' = Some (V_str ''false'') \<and>
      (msg \<noteq> ''goal_reached'' \<longrightarrow>
         state_name flukeweed
           (fsm_run_event (Suc (Suc d)) flukeweed fe On_receive_message (Message msg) ?mb2) =
         Some ''idling'') \<and>
      state_name flukeweed ?mb3 = Some ''pulled'' \<and>
      s_timer ?mb3 = (if pw \<le> 3 then 1.5 else if pw = 4 then 1.25 else 1) \<and>
      s_health ?mb3 = hp \<and> s_max_health ?mb3 = hp \<and> s_group_task_power ?mb3 = pw \<and>
      \<not> s_to_delete ?mb3"
    using 4 f by (simp add: state_name_def flukeweed_states pull_interval_def)
  have second: "state_name flukeweed mb = Some ''pulled'' \<and> \<not> s_to_delete mb \<longrightarrow>
      (let mb' = fsm_run_event (Suc d) flukeweed fe On_timer No_payload mb in
         state_name flukeweed mb' = Some ''pulled'' \<and>
         s_health mb' = max 0 (min (s_max_health mb) (s_health mb - 20)) \<and>
         (20 \<le> s_health mb \<and> s_health mb \<le> s_max_health mb \<longrightarrow>
            s_health mb' = s_health mb - 20) \<and>
         s_timer mb' =
           (if s_group_task_power mb \<le> 3 then 1.5
            else if s_group_task_power mb = 4 then 1.25 else 1) \<and>
         s_max_health mb' = s_max_health mb \<and>
         s_group_task_power mb' = s_group_task_power mb \<and> \<not> s_to_delete mb')"
  proof
    assume a: "state_name flukeweed mb = Some ''pulled'' \<and> \<not> s_to_delete mb"
    then have i: "s_state mb = 2" by (simp add: flukeweed_pulled_index)
    show "let mb' = fsm_run_event (Suc d) flukeweed fe On_timer No_payload mb in
         state_name flukeweed mb' = Some ''pulled'' \<and>
         s_health mb' = max 0 (min (s_max_health mb) (s_health mb - 20)) \<and>
         (20 \<le> s_health mb \<and> s_health mb \<le> s_max_health mb \<longrightarrow>
            s_health mb' = s_health mb - 20) \<and>
         s_timer mb' =
           (if s_group_task_power mb \<le> 3 then 1.5
            else if s_group_task_power mb = 4 then 1.25 else 1) \<and>
         s_max_health mb' = s_max_health mb \<and>
         s_group_task_power mb' = s_group_task_power mb \<and> \<not> s_to_delete mb'"
      using a i flukeweed_pulled_timer [of mb d fe No_payload]
      by (simp add: Let_def state_name_def flukeweed_states pull_interval_def)
  qed
  show ?thesis
    unfolding Let_def 1 2 3 using first second [unfolded Let_def] by blast
qed

text \<open>Witness for C5: a flukeweed of health 100 is spawned, its timer fires, it receives
  \<^verbatim>\<open>goal_reached\<close>, and its timer fires again: its health is 80 and the timer is armed
  to 1.5, 1.25 and 1 seconds for the powers 3, 4 and 5.\<close>

theorem flukeweed_lifecycle_witness:
  "s_health (fsm_run_event 8 flukeweed plain_fsm_env On_timer No_payload (pulled_flukeweed 3)) = 80 \<and>
   s_timer (fsm_run_event 8 flukeweed plain_fsm_env On_timer No_payload (pulled_flukeweed 3)) = 1.5 \<and>
   s_timer (fsm_run_event 8 flukeweed plain_fsm_env On_timer No_payload (pulled_flukeweed 4)) = 1.25 \<and>
   s_timer (fsm_run_event 8 flukeweed plain_fsm_env On_timer No_payload (pulled_flukeweed 5)) = 1 \<and>
   state_name flukeweed
     (fsm_run_event 8 flukeweed plain_fsm_env On_timer No_payload (pulled_flukeweed 5)) =
     Some ''pulled''"
proof -
  have s: "Suc (Suc 6) = 8" "Suc 7 = 8" by simp_all
  note t3 = flukeweed_lifecycle [of 6 plain_fsm_env 100 3 "''goal_lost''" "pulled_flukeweed 3",
      unfolded Let_def s]
  note t3' = flukeweed_lifecycle [of 7 plain_fsm_env 100 3 "''goal_lost''" "pulled_flukeweed 3",
      unfolded Let_def s]
  note t4 = flukeweed_lifecycle [of 6 plain_fsm_env 100 4 "''goal_lost''" "pulled_flukeweed 4",
      unfolded Let_def s]
  note t4' = flukeweed_lifecycle [of 7 plain_fsm_env 100 4 "''goal_lost''" "pulled_flukeweed 4",
      unfolded Let_def s]
  note t5 = flukeweed_lifecycle [of 6 plain_fsm_env 100 5 "''goal_lost''" "pulled_flukeweed 5",
      unfolded Let_def s]
  note t5' = flukeweed_lifecycle [of 7 plain_fsm_env 100 5 "''goal_lost''" "pulled_flukeweed 5",
      unfolded Let_def s]
  have a3: "s_health (fsm_run_event 8 flukeweed plain_fsm_env On_timer No_payload
               (pulled_flukeweed 3)) = 80 \<and>
            s_timer (fsm_run_event 8 flukeweed plain_fsm_env On_timer No_payload
               (pulled_flukeweed 3)) = 1.5"
    using t3 t3' unfolding pulled_flukeweed_def by simp
  have a4: "s_timer (fsm_run_event 8 flukeweed plain_fsm_env On_timer No_payload
               (pulled_flukeweed 4)) = 1.25"
    using t4 t4' unfolding pulled_flukeweed_def by simp
  have a5: "s_timer (fsm_run_event 8 flukeweed plain_fsm_env On_timer No_payload
               (pulled_flukeweed 5)) = 1 \<and>
            state_name flukeweed (fsm_run_event 8 flukeweed plain_fsm_env On_timer No_payload
               (pulled_flukeweed 5)) = Some ''pulled''"
    using t5 t5' unfolding pulled_flukeweed_def by simp
  show ?thesis using a3 a4 a5 by simp
qed

end
